theory Spec2Isabelle
  imports Main "HOL-Library.Sublist"
begin

section \<open>The mocking pipeline of worker.go\<close>

text \<open>
  A shallow embedding of \<^verbatim>\<open>worker.go\<close>: the column classifier
  (\<^verbatim>\<open>columnExtractor\<close>), the per-table load (\<^verbatim>\<open>CommitData\<close>, \<^verbatim>\<open>CopyData\<close>), the
  loader of one-column serial tables (\<^verbatim>\<open>addDataIfItsASerialDatatype\<close>) and the
  orchestration (\<^verbatim>\<open>MockTable\<close>, \<^verbatim>\<open>tableMocker\<close>,
  \<^verbatim>\<open>BackupConstraintsAndStartDataLoading\<close>).

  The package-level variables \<^verbatim>\<open>skippedTab\<close> and \<^verbatim>\<open>oneColumnTable\<close> are fields of
  an explicit state. The functions that worker.go calls and that live in other files
  of the package (the value generator, the database, the command-line options) are
  the fields of an environment; what they do to the database and to the generator's
  randomness is a world of an arbitrary type \<open>'w\<close> that every call may read and change.
  The calls to the database and to the operator, and the diagnostics, are recorded in
  order in a trace. \<^verbatim>\<open>Fatalf\<close> ends the process: it is the outcome \<open>Exit\<close>.
\<close>

subsection \<open>Strings\<close>

text \<open>Go's \<^verbatim>\<open>strings.HasPrefix(s, prefix)\<close>: a comparison of bytes.\<close>

definition HasPrefix :: "string \<Rightarrow> string \<Rightarrow> bool" where
  "HasPrefix s pre \<longleftrightarrow> length pre \<le> length s \<and> take (length pre) s = pre"

text \<open>Go's \<^verbatim>\<open>strings.Join(elems, sep)\<close>.\<close>

fun Join :: "string list \<Rightarrow> string \<Rightarrow> string" where
  "Join [] sep = []"
| "Join [x] sep = x"
| "Join (x # y # ys) sep = x @ sep @ Join (y # ys) sep"

text \<open>The double quote, the single quote and the backslash of the format strings.\<close>

definition dquote :: string where
  "dquote = [CHR 0x22]"

definition squote :: string where
  "squote = [CHR 0x27]"

definition backslash :: string where
  "backslash = [CHR 0x5C]"

subsection \<open>Data\<close>

text \<open>
  \<^verbatim>\<open>DBTables\<close> and \<^verbatim>\<open>DBColumns\<close> are declared in another file of the package; these
  are the fields worker.go reads. \<^verbatim>\<open>TableCollection\<close> embeds a \<^verbatim>\<open>DBTables\<close>.
\<close>

record DBTables =
  Schema :: string
  Table :: string

record DBColumns =
  Column :: string
  Datatype :: string
  Sequence :: string

record TableCollection =
  DBTables :: DBTables
  Columns :: "DBColumns list"

text \<open>The fields of \<^verbatim>\<open>cmdOptions\<close> that worker.go reads; \<^verbatim>\<open>Rows\<close> is a Go \<^verbatim>\<open>int\<close>.\<close>

record Command =
  Rows :: int
  IgnoreConstraint :: bool
  DontPrompt :: bool

definition delimiter :: string where
  "delimiter = ''$''"

subsection \<open>Trace, state and environment\<close>

datatype level = Debug | Warning

text \<open>
  A \<open>CopyFrom\<close> event holds the table \<^verbatim>\<open>CopyData\<close> was called for, the copy
  statement, the payload and the error of \<^verbatim>\<open>db.CopyFrom\<close>; an \<open>ExecuteDB\<close> event
  holds the query and the error of \<^verbatim>\<open>ExecuteDB\<close>. \<open>None\<close> is Go's \<^verbatim>\<open>nil\<close> error.
  \<open>Log\<close> is a \<^verbatim>\<open>Warn\<close>, \<^verbatim>\<open>Warnf\<close> or \<^verbatim>\<open>Debugf\<close> message of a skip or
  of a failure. The progress messages (\<^verbatim>\<open>Info\<close>, \<^verbatim>\<open>Infof\<close>, the other
  \<^verbatim>\<open>Debugf\<close>) and the progress bar are not recorded.
\<close>

datatype event =
    Log level string
  | YesOrNoConfirmation
  | BackupDDL
  | RemoveConstraints string
  | FixConstraints
  | ConnectDB
  | Close
  | CopyFrom string string string "string option"
  | ExecuteDB string "string option"

record 'w state =
  world :: 'w
  skippedTab :: "string list"
  oneColumnTable :: "string list"
  trace :: "event list"

text \<open>
  The environment. \<open>BuildData\<close> returns the error message (\<open>Inl\<close>) or the value as
  \<^verbatim>\<open>fmt.Sprintf("%v", d)\<close> prints it (\<open>Inr\<close>). \<open>CopyFromDB\<close> takes the payload and
  the statement, \<open>ExecuteDBQuery\<close> the query; both return the error.
  \<open>effect\<close> is what a call whose result worker.go does not inspect
  (\<^verbatim>\<open>YesOrNoConfirmation\<close>, \<^verbatim>\<open>BackupDDL\<close>, \<^verbatim>\<open>RemoveConstraints\<close>,
  \<^verbatim>\<open>FixConstraints\<close>, \<^verbatim>\<open>ConnectDB\<close>, \<^verbatim>\<open>db.Close\<close>) does to the world.
\<close>

record 'w env =
  cmdOptions :: Command
  GreenplumOrPostgres :: string
  programName :: string
  columnExtractorPostgres :: "string \<Rightarrow> string \<Rightarrow> DBColumns list"
  columnExtractorGPDB :: "string \<Rightarrow> string \<Rightarrow> DBColumns list"
  BuildData :: "string \<Rightarrow> 'w \<Rightarrow> (string + string) \<times> 'w"
  CopyFromDB :: "string \<Rightarrow> string \<Rightarrow> 'w \<Rightarrow> string option \<times> 'w"
  ExecuteDBQuery :: "string \<Rightarrow> 'w \<Rightarrow> string option \<times> 'w"
  effect :: "event \<Rightarrow> 'w \<Rightarrow> 'w"

text \<open>
  Modelled from the spec: \<^verbatim>\<open>Fatalf\<close> is declared in another file of the package.
  By the specification an unrecoverable failure is reported and ends the whole run at
  once, so a call of \<^verbatim>\<open>Fatalf\<close> is the outcome \<open>Exit\<close> with the message, in the
  state of the call; \<open>Return\<close> is a function that returned.
\<close>

datatype ('w, 'a) outcome =
    Exit string "'w state"
  | Return 'a "'w state"

definition call :: "'w env \<Rightarrow> event \<Rightarrow> 'w state \<Rightarrow> 'w state" where
  "call env ev st = st\<lparr>world := effect env ev (world st), trace := trace st @ [ev]\<rparr>"

definition logf :: "level \<Rightarrow> string \<Rightarrow> 'w state \<Rightarrow> 'w state" where
  "logf lvl msg st = st\<lparr>trace := trace st @ [Log lvl msg]\<rparr>"

text \<open>The state of a fresh process: both package-level slices are nil.\<close>

definition initState :: "'w \<Rightarrow> 'w state" where
  "initState w = \<lparr>world = w, skippedTab = [], oneColumnTable = [], trace = []\<rparr>"

subsection \<open>Classification\<close>

definition isItSerialDatatype :: "DBColumns \<Rightarrow> bool" where
  "isItSerialDatatype c = (if HasPrefix (Sequence c) ''nextval'' then True else False)"

definition GenerateTableName :: "string \<Rightarrow> string \<Rightarrow> string" where
  "GenerateTableName tab schema = dquote @ schema @ dquote @ ''.'' @ dquote @ tab @ dquote"

text \<open>
  \<^verbatim>\<open>c[0]\<close> panics on an empty slice; the only caller passes a slice of length one.
\<close>

definition checkIfOneColumnIsASerialDatatype ::
  "DBTables \<Rightarrow> DBColumns list \<Rightarrow> 'w state \<Rightarrow> ('w, unit) outcome" where
  "checkIfOneColumnIsASerialDatatype t c st =
     (let tab = GenerateTableName (Table t) (Schema t) in
      case c of
        [] \<Rightarrow> Exit ''panic: runtime error: index out of range'' st
      | column # _ \<Rightarrow>
          if isItSerialDatatype column
          then Return () (st\<lparr>oneColumnTable := oneColumnTable st @ [tab]\<rparr>)
          else Return () st)"

text \<open>The columns of a table, from the extractor of the configured database.\<close>

definition extractColumns :: "'w env \<Rightarrow> DBTables \<Rightarrow> DBColumns list" where
  "extractColumns env t =
     (if GreenplumOrPostgres env = ''postgres''
      then columnExtractorPostgres env (dquote @ Schema t @ dquote) (Table t)
      else columnExtractorGPDB env (dquote @ Schema t @ dquote) (Table t))"

text \<open>The inner loop of \<^verbatim>\<open>columnExtractor\<close>, over the columns of one table.\<close>

fun tempColumnsLoop :: "DBColumns list \<Rightarrow> DBColumns list \<Rightarrow> DBColumns list" where
  "tempColumnsLoop [] tempColumns = tempColumns"
| "tempColumnsLoop (c # cs) tempColumns =
     (if \<not> isItSerialDatatype c then tempColumnsLoop cs (tempColumns @ [c])
      else tempColumnsLoop cs tempColumns)"

text \<open>The outer loop of \<^verbatim>\<open>columnExtractor\<close>, over the tables.\<close>

fun columnExtractorLoop ::
  "'w env \<Rightarrow> DBTables list \<Rightarrow> TableCollection list \<Rightarrow> 'w state
     \<Rightarrow> ('w, TableCollection list) outcome" where
  "columnExtractorLoop env [] collection st = Return collection st"
| "columnExtractorLoop env (t # ts) collection st =
     (let columns = extractColumns env t in
      case (if length columns = 1 then checkIfOneColumnIsASerialDatatype t columns st
            else Return () st) of
        Exit msg st1 \<Rightarrow> Exit msg st1
      | Return _ st1 \<Rightarrow>
          (let tempColumns = tempColumnsLoop columns [] in
           if length tempColumns > 0
           then columnExtractorLoop env ts
                  (collection @ [\<lparr>DBTables = t, Columns = tempColumns\<rparr>]) st1
           else columnExtractorLoop env ts collection st1))"

definition columnExtractor ::
  "'w env \<Rightarrow> DBTables list \<Rightarrow> 'w state \<Rightarrow> ('w, TableCollection list) outcome" where
  "columnExtractor env tables st = columnExtractorLoop env tables [] st"

subsection \<open>Loading one table\<close>

definition copyStatement :: "string \<Rightarrow> string list \<Rightarrow> string" where
  "copyStatement tab col =
     ''COPY '' @ tab @ ''('' @ dquote @ Join col (dquote @ '','' @ dquote) @ dquote
       @ '') FROM STDIN WITH CSV DELIMITER '' @ squote @ delimiter @ squote
       @ '' QUOTE e'' @ squote @ backslash @ ''x01'' @ squote"

definition CopyData ::
  "'w env \<Rightarrow> string \<Rightarrow> string list \<Rightarrow> string list \<Rightarrow> 'w state \<Rightarrow> ('w, unit) outcome" where
  "CopyData env tab col data st =
     (let copyStatment = copyStatement tab col;
          payload = Join data delimiter
      in case CopyFromDB env payload copyStatment (world st) of
           (err, w) \<Rightarrow>
             (let st1 = st\<lparr>world := w,
                          trace := trace st @ [CopyFrom tab copyStatment payload err]\<rparr>
              in case err of
                   Some e \<Rightarrow>
                     Exit (''Error during committing data: '' @ e)
                       (logf Debug (''Data: '' @ Join data delimiter)
                         (logf Debug (''Copy Statement: '' @ copyStatment)
                           (logf Debug (''Table: '' @ tab) st1)))
                 | None \<Rightarrow> Return () st1))"

text \<open>
  What the loop over the columns of one row leaves: the column names and the values
  of a whole row, or the \<^verbatim>\<open>break DataTypePickerLoop\<close>.
\<close>

datatype row = Built "string list" "string list" | BreakDataTypePickerLoop

fun columnLoop ::
  "'w env \<Rightarrow> string \<Rightarrow> DBColumns list \<Rightarrow> string list \<Rightarrow> string list \<Rightarrow> 'w state
     \<Rightarrow> ('w, row) outcome" where
  "columnLoop env tab [] col data st = Return (Built col data) st"
| "columnLoop env tab (c # cs) col data st =
     (case BuildData env (Datatype c) (world st) of
        (Inl err, w) \<Rightarrow>
          if HasPrefix err ''unsupported datatypes found''
          then Return BreakDataTypePickerLoop
                 ((logf Debug
                     (''Table '' @ tab @ '' skipped, since the column '' @ Column c
                        @ '', had unknown data type '' @ Datatype c @ '': '' @ err)
                     (st\<lparr>world := w\<rparr>))
                  \<lparr>skippedTab := skippedTab st @ [tab]\<rparr>)
          else Exit (''Error when building data for table '' @ tab @ '': '' @ err)
                 (st\<lparr>world := w\<rparr>)
      | (Inr d, w) \<Rightarrow>
          columnLoop env tab cs (col @ [Column c]) (data @ [d]) (st\<lparr>world := w\<rparr>))"

text \<open>The loop \<^verbatim>\<open>for i := 0; i < cmdOptions.Rows; i++\<close>, from \<open>i\<close> on.\<close>

function rowLoop ::
  "'w env \<Rightarrow> TableCollection \<Rightarrow> string \<Rightarrow> int \<Rightarrow> 'w state \<Rightarrow> ('w, unit) outcome" where
  "rowLoop env t tab i st =
     (if i < Rows (cmdOptions env)
      then case columnLoop env tab (Columns t) [] [] st of
             Exit msg st1 \<Rightarrow> Exit msg st1
           | Return BreakDataTypePickerLoop st1 \<Rightarrow> Return () st1
           | Return (Built col data) st1 \<Rightarrow>
               (case CopyData env tab col data st1 of
                  Exit msg st2 \<Rightarrow> Exit msg st2
                | Return _ st2 \<Rightarrow> rowLoop env t tab (i + 1) st2)
      else Return () st)"
  by pat_completeness auto
termination
  by (relation "measure (\<lambda>(env, t, tab, i, st). nat (Rows (cmdOptions env) - i))") auto

text \<open>
  \<^verbatim>\<open>defer db.Close()\<close> runs when \<^verbatim>\<open>CommitData\<close> returns, not when the process
  ends in \<^verbatim>\<open>Fatalf\<close>.
\<close>

definition CommitData :: "'w env \<Rightarrow> TableCollection \<Rightarrow> 'w state \<Rightarrow> ('w, unit) outcome" where
  "CommitData env t st =
     (let tab = GenerateTableName (Table (DBTables t)) (Schema (DBTables t)) in
      case rowLoop env t tab 0 (call env ConnectDB st) of
        Exit msg st1 \<Rightarrow> Exit msg st1
      | Return _ st1 \<Rightarrow> Return () (call env Close st1))"

subsection \<open>Loading the one-column serial tables\<close>

text \<open>The loop \<^verbatim>\<open>for total < cmdOptions.Rows\<close>, from \<open>total'\<close> on.\<close>

function insertLoop :: "'w env \<Rightarrow> string \<Rightarrow> int \<Rightarrow> 'w state \<Rightarrow> ('w, unit) outcome" where
  "insertLoop env t total' st =
     (if total' < Rows (cmdOptions env)
      then (let query = ''INSERT INTO '' @ t @ '' default values;'' in
            case ExecuteDBQuery env query (world st) of
              (err, w) \<Rightarrow>
                (let st1 = st\<lparr>world := w, trace := trace st @ [ExecuteDB query err]\<rparr>
                 in case err of
                      Some e \<Rightarrow>
                        Exit (''Error when loading the serial datatype for table '' @ t
                                @ '', err: '' @ e) st1
                    | None \<Rightarrow> insertLoop env t (total' + 1) st1))
      else Return () st)"
  by pat_completeness auto
termination
  by (relation "measure (\<lambda>(env, t, total', st). nat (Rows (cmdOptions env) - total'))") auto

fun serialTablesLoop :: "'w env \<Rightarrow> string list \<Rightarrow> 'w state \<Rightarrow> ('w, unit) outcome" where
  "serialTablesLoop env [] st = Return () st"
| "serialTablesLoop env (t # ts) st =
     (case insertLoop env t 0 st of
        Exit msg st1 \<Rightarrow> Exit msg st1
      | Return _ st1 \<Rightarrow> serialTablesLoop env ts st1)"

definition addDataIfItsASerialDatatype :: "'w env \<Rightarrow> 'w state \<Rightarrow> ('w, unit) outcome" where
  "addDataIfItsASerialDatatype env st = serialTablesLoop env (oneColumnTable st) st"

subsection \<open>Orchestration\<close>

definition skipTablesWarning :: "'w env \<Rightarrow> 'w state \<Rightarrow> 'w state" where
  "skipTablesWarning env st =
     (if length (skippedTab st) > 0
      then logf Warning
             (''These tables are skipped since these data types are not supported by ''
                @ programName env @ '': '' @ Join (skippedTab st) '','') st
      else st)"

text \<open>The loop over the tables in \<^verbatim>\<open>BackupConstraintsAndStartDataLoading\<close>.\<close>

fun tablesLoop :: "'w env \<Rightarrow> TableCollection list \<Rightarrow> 'w state \<Rightarrow> ('w, unit) outcome" where
  "tablesLoop env [] st = Return () st"
| "tablesLoop env (t # ts) st =
     (let table = GenerateTableName (Table (DBTables t)) (Schema (DBTables t)) in
      case CommitData env t (call env (RemoveConstraints table) st) of
        Exit msg st1 \<Rightarrow> Exit msg st1
      | Return _ st1 \<Rightarrow> tablesLoop env ts st1)"

definition BackupConstraintsAndStartDataLoading ::
  "'w env \<Rightarrow> TableCollection list \<Rightarrow> 'w state \<Rightarrow> ('w, unit) outcome" where
  "BackupConstraintsAndStartDataLoading env tables st =
     (case tablesLoop env tables (call env BackupDDL st) of
        Exit msg st1 \<Rightarrow> Exit msg st1
      | Return _ st1 \<Rightarrow>
          (case addDataIfItsASerialDatatype env st1 of
             Exit msg st2 \<Rightarrow> Exit msg st2
           | Return _ st2 \<Rightarrow> Return () (skipTablesWarning env st2)))"

definition tableMocker :: "'w env \<Rightarrow> DBTables list \<Rightarrow> 'w state \<Rightarrow> ('w, unit) outcome" where
  "tableMocker env tables st =
     (let st1 = (if \<not> DontPrompt (cmdOptions env) then call env YesOrNoConfirmation st
                 else st) in
      case columnExtractor env tables st1 of
        Exit msg st2 \<Rightarrow> Exit msg st2
      | Return columns st2 \<Rightarrow>
          if length columns > 0
          then BackupConstraintsAndStartDataLoading env columns st2
          else Return ()
                 (logf Warning
                    ''No columns available to mock the data, closing the program'' st2))"

definition MockTable :: "'w env \<Rightarrow> DBTables list \<Rightarrow> 'w state \<Rightarrow> ('w, unit) outcome" where
  "MockTable env tables st =
     (let totalTables = length tables in
      if totalTables > 0
      then case tableMocker env tables st of
             Exit msg st1 \<Rightarrow> Exit msg st1
           | Return _ st1 \<Rightarrow>
               if \<not> IgnoreConstraint (cmdOptions env)
               then Return () (call env FixConstraints st1)
               else Return () st1
      else Return ()
             (logf Warning ''No table available to mock the data, closing the program'' st))"

subsection \<open>Notions used in the statements\<close>

text \<open>The state in which a call ended, returned or not.\<close>

fun final :: "('w, 'a) outcome \<Rightarrow> 'w state" where
  "final (Exit msg st) = st"
| "final (Return x st) = st"

text \<open>The qualified name under which worker.go addresses a table.\<close>

definition tableName :: "DBTables \<Rightarrow> string" where
  "tableName t = GenerateTableName (Table t) (Schema t)"

text \<open>The rows committed to a table: the bulk copies that returned no error.\<close>

fun isCommit :: "string \<Rightarrow> event \<Rightarrow> bool" where
  "isCommit tab (CopyFrom tb stmt payload None) = (tb = tab)"
| "isCommit tab ev = False"

definition committed :: "string \<Rightarrow> event list \<Rightarrow> nat" where
  "committed tab tr = length (filter (isCommit tab) tr)"

fun isCopyFrom :: "event \<Rightarrow> bool" where
  "isCopyFrom (CopyFrom tb stmt payload err) = True"
| "isCopyFrom ev = False"




text \<open>
  The state after the first \<open>n\<close> iterations of the row loop, when each of them built
  its row and committed it: the body of \<open>rowLoop\<close>, repeated.
\<close>

fun afterRows ::
  "'w env \<Rightarrow> TableCollection \<Rightarrow> string \<Rightarrow> nat \<Rightarrow> 'w state \<Rightarrow> 'w state option" where
  "afterRows env t tab 0 st = Some st"
| "afterRows env t tab (Suc n) st =
     (case columnLoop env tab (Columns t) [] [] st of
        Return (Built col data) st1 \<Rightarrow>
          (case CopyData env tab col data st1 of
             Return _ st2 \<Rightarrow> afterRows env t tab n st2
           | Exit _ _ \<Rightarrow> None)
      | _ \<Rightarrow> None)"

text \<open>
  The columns of a table that are not sequence-backed, in the table's order, and the
  tables with exactly one column, that one sequence-backed: what the classifier is to
  compute, in the words of its contract.
\<close>

definition nonSerialColumns :: "'w env \<Rightarrow> DBTables \<Rightarrow> DBColumns list" where
  "nonSerialColumns env t = filter (\<lambda>c. \<not> isItSerialDatatype c) (extractColumns env t)"

definition oneSerialColumn :: "'w env \<Rightarrow> DBTables \<Rightarrow> bool" where
  "oneSerialColumn env t =
     (case extractColumns env t of
        [c] \<Rightarrow> isItSerialDatatype c
      | _ \<Rightarrow> False)"

text \<open>The state in which \<open>tableMocker\<close> starts the classification.\<close>

definition prompted :: "'w env \<Rightarrow> 'w state \<Rightarrow> 'w state" where
  "prompted env st =
     (if \<not> DontPrompt (cmdOptions env) then call env YesOrNoConfirmation st else st)"

text \<open>
  \<open>generated env c d\<close>: the generator returns the value \<open>d\<close> for the datatype of the
  column \<open>c\<close>, in some world. \<open>copyOfRow tab t (data, err)\<close> is the bulk copy of one
  row of the table collection \<open>t\<close>: the statement names all columns of \<open>t\<close> in
  their order, the payload is the values of the row joined by the delimiter.
\<close>

definition generated :: "'w env \<Rightarrow> DBColumns \<Rightarrow> string \<Rightarrow> bool" where
  "generated env c d \<longleftrightarrow> (\<exists>w. fst (BuildData env (Datatype c) w) = Inr d)"

definition copyOfRow :: "string \<Rightarrow> TableCollection \<Rightarrow> string list \<times> string option \<Rightarrow> event" where
  "copyOfRow tab t row =
     CopyFrom tab (copyStatement tab (map Column (Columns t)))
       (Join (fst row) delimiter) (snd row)"

subsection \<open>A concrete environment\<close>

text \<open>
  An environment to run the model on. The world counts the calls of the generator.
  The generator knows \<^verbatim>\<open>text\<close> and \<^verbatim>\<open>integer\<close>; \<^verbatim>\<open>flaky\<close> is known for the
  first two calls only, \<^verbatim>\<open>poison\<close> gives a value the database refuses, and
  \<^verbatim>\<open>broken\<close> fails with another error.
\<close>

definition demoBuildData :: "string \<Rightarrow> nat \<Rightarrow> (string + string) \<times> nat" where
  "demoBuildData dt w =
     (if dt = ''text'' then (Inr ''abc'', Suc w)
      else if dt = ''integer'' then (Inr ''42'', Suc w)
      else if dt = ''flaky'' \<and> w < 2 then (Inr ''ok'', Suc w)
      else if dt = ''poison'' then (Inr ''bad'', Suc w)
      else if dt = ''broken'' then (Inl ''generator failed'', Suc w)
      else (Inl (''unsupported datatypes found: '' @ dt), Suc w))"

definition demoCopyFrom :: "string \<Rightarrow> string \<Rightarrow> nat \<Rightarrow> string option \<times> nat" where
  "demoCopyFrom payload stmt w = (if payload = ''bad'' then Some ''copy refused'' else None, w)"

definition demoColumns :: "string \<Rightarrow> string \<Rightarrow> DBColumns list" where
  "demoColumns schema tab =
     (if tab = ''users''
      then [\<lparr>Column = ''id'', Datatype = ''integer'', Sequence = ''nextval(users_id_seq)''\<rparr>,
            \<lparr>Column = ''name'', Datatype = ''text'', Sequence = []\<rparr>,
            \<lparr>Column = ''age'', Datatype = ''integer'', Sequence = []\<rparr>]
      else if tab = ''counter''
      then [\<lparr>Column = ''id'', Datatype = ''integer'', Sequence = ''nextval(counter_id_seq)''\<rparr>]
      else if tab = ''pairs''
      then [\<lparr>Column = ''a'', Datatype = ''integer'', Sequence = ''nextval(a_seq)''\<rparr>,
            \<lparr>Column = ''b'', Datatype = ''integer'', Sequence = ''nextval(b_seq)''\<rparr>]
      else if tab = ''orders''
      then [\<lparr>Column = ''shape'', Datatype = ''geometry'', Sequence = []\<rparr>]
      else if tab = ''events''
      then [\<lparr>Column = ''kind'', Datatype = ''flaky'', Sequence = []\<rparr>]
      else if tab = ''jobs''
      then [\<lparr>Column = ''state'', Datatype = ''poison'', Sequence = []\<rparr>]
      else if tab = ''logs''
      then [\<lparr>Column = ''line'', Datatype = ''broken'', Sequence = []\<rparr>]
      else [])"

definition demoEnv :: "int \<Rightarrow> nat env" where
  "demoEnv n =
     \<lparr>cmdOptions = \<lparr>Rows = n, IgnoreConstraint = False, DontPrompt = True\<rparr>,
      GreenplumOrPostgres = ''postgres'',
      programName = ''mock'',
      columnExtractorPostgres = demoColumns,
      columnExtractorGPDB = demoColumns,
      BuildData = demoBuildData,
      CopyFromDB = demoCopyFrom,
      ExecuteDBQuery = (\<lambda>query w. (None, w)),
      effect = (\<lambda>ev w. w)\<rparr>"

definition demoTable :: "string \<Rightarrow> DBTables" where
  "demoTable tab = \<lparr>Schema = ''public'', Table = tab\<rparr>"

text \<open>The table collection the classifier builds for a table of the concrete environment.\<close>

definition demoCollection :: "string \<Rightarrow> TableCollection" where
  "demoCollection tab =
     \<lparr>DBTables = demoTable tab,
      Columns = filter (\<lambda>c. \<not> isItSerialDatatype c) (demoColumns ''public'' tab)\<rparr>"

text \<open>
  The state of a run with two rows after \<^verbatim>\<open>users\<close> was loaded, and the state in
  which the load of a next table starts.
\<close>

definition demoAfterUsers :: "nat state" where
  "demoAfterUsers =
     final (tablesLoop (demoEnv 2) [demoCollection ''users'']
              (call (demoEnv 2) BackupDDL (initState 0)))"

definition demoStart :: "string \<Rightarrow> nat state" where
  "demoStart tab =
     call (demoEnv 2) ConnectDB
       (call (demoEnv 2) (RemoveConstraints (tableName (demoTable tab))) demoAfterUsers)"

section \<open>Properties\<close>

subsection \<open>Classification\<close>


lemma HasPrefix_prefix: "HasPrefix s pre \<longleftrightarrow> prefix pre s"
proof
  assume "HasPrefix s pre"
  then have "take (length pre) s = pre"
    by (simp add: HasPrefix_def)
  then have "s = pre @ drop (length pre) s"
    by (metis append_take_drop_id)
  then show "prefix pre s"
    by (metis prefixI)
next
  assume "prefix pre s"
  then obtain zs where "s = pre @ zs"
    by (auto simp: prefix_def)
  then show "HasPrefix s pre"
    by (simp add: HasPrefix_def)
qed

lemma isItSerialDatatype_prefix: "isItSerialDatatype c \<longleftrightarrow> prefix ''nextval'' (Sequence c)"
  by (simp add: isItSerialDatatype_def HasPrefix_prefix)

lemma tempColumnsLoop_filter:
  "tempColumnsLoop cs tempColumns = tempColumns @ filter (\<lambda>c. \<not> isItSerialDatatype c) cs"
  by (induction cs arbitrary: tempColumns) simp_all

lemma checkIf_single:
  "checkIfOneColumnIsASerialDatatype t [c] st =
     Return () (st\<lparr>oneColumnTable := oneColumnTable st
        @ (if isItSerialDatatype c then [tableName t] else [])\<rparr>)"
  by (simp add: checkIfOneColumnIsASerialDatatype_def tableName_def)

lemma columnExtractorLoop_eq:
  "columnExtractorLoop env ts collection st =
     Return (collection @ map (\<lambda>t. \<lparr>DBTables = t, Columns = nonSerialColumns env t\<rparr>)
                            (filter (\<lambda>t. nonSerialColumns env t \<noteq> []) ts))
            (st\<lparr>oneColumnTable := oneColumnTable st
                   @ map tableName (filter (oneSerialColumn env) ts)\<rparr>)"
proof (induction ts arbitrary: collection st)
  case Nil
  show ?case by simp
next
  case (Cons t ts)
  show ?case
  proof (cases "extractColumns env t")
    case Nil
    then show ?thesis
      by (simp add: Cons.IH Let_def tempColumnsLoop_filter nonSerialColumns_def oneSerialColumn_def)
  next
    case (Cons c cs)
    show ?thesis
    proof (cases cs)
      case Nil
      with Cons show ?thesis
        by (simp add: Cons.IH Let_def tempColumnsLoop_filter nonSerialColumns_def
            oneSerialColumn_def checkIf_single)
    next
      case (Cons d ds)
      with \<open>extractColumns env t = c # cs\<close> show ?thesis
        by (simp add: Cons.IH Let_def tempColumnsLoop_filter nonSerialColumns_def
            oneSerialColumn_def)
    qed
  qed
qed


lemma columnExtractor_eq:
  "columnExtractor env tables st =
     Return (map (\<lambda>t. \<lparr>DBTables = t, Columns = nonSerialColumns env t\<rparr>)
                 (filter (\<lambda>t. nonSerialColumns env t \<noteq> []) tables))
            (st\<lparr>oneColumnTable := oneColumnTable st
                   @ map tableName (filter (oneSerialColumn env) tables)\<rparr>)"
  by (simp add: columnExtractor_def columnExtractorLoop_eq)

lemma nonSerialColumns_prefix:
  "nonSerialColumns env t = filter (\<lambda>c. \<not> prefix ''nextval'' (Sequence c)) (extractColumns env t)"
  by (simp add: nonSerialColumns_def isItSerialDatatype_prefix)

text \<open>
  Claim C4. A column is classified sequence-backed exactly when its default-value
  expression begins with the bytes \<^verbatim>\<open>nextval\<close>: the comparison is on bytes, so
  another case or a leading blank is not recognised. The classification returns, and
  every table collection it returns belongs to a table of the input and holds exactly
  the columns of that table that are not sequence-backed, in the table's order; no
  sequence-backed column is in a collection, and every column that is not
  sequence-backed is in the collection of its table.
\<close>

theorem C4_sequence_backed_columns_filtered:
  "(isItSerialDatatype c \<longleftrightarrow> prefix ''nextval'' (Sequence c))
   \<and> \<not> isItSerialDatatype (c\<lparr>Sequence := ''NEXTVAL'' @ s\<rparr>)
   \<and> \<not> isItSerialDatatype (c\<lparr>Sequence := '' nextval'' @ s\<rparr>)
   \<and> (\<exists>collection st'.
         columnExtractor env tables st = Return collection st'
         \<and> (\<forall>tc \<in> set collection.
               DBTables tc \<in> set tables
               \<and> Columns tc = filter (\<lambda>c. \<not> prefix ''nextval'' (Sequence c))
                                 (extractColumns env (DBTables tc))
               \<and> subseq (Columns tc) (extractColumns env (DBTables tc))
               \<and> (\<forall>c \<in> set (Columns tc). \<not> prefix ''nextval'' (Sequence c)))
         \<and> (\<forall>t \<in> set tables. \<forall>c \<in> set (extractColumns env t).
               \<not> prefix ''nextval'' (Sequence c) \<longrightarrow>
               (\<exists>tc \<in> set collection. DBTables tc = t \<and> c \<in> set (Columns tc))))"
proof -
  let ?keep = "\<lambda>c. \<not> prefix ''nextval'' (Sequence c)"
  let ?coll = "map (\<lambda>t. \<lparr>DBTables = t, Columns = nonSerialColumns env t\<rparr>)
                 (filter (\<lambda>t. nonSerialColumns env t \<noteq> []) tables)"
  have a: "isItSerialDatatype c \<longleftrightarrow> prefix ''nextval'' (Sequence c)"
    by (rule isItSerialDatatype_prefix)
  have b: "\<not> isItSerialDatatype (c\<lparr>Sequence := ''NEXTVAL'' @ s\<rparr>)"
    by (simp add: isItSerialDatatype_def HasPrefix_def)
  have b': "\<not> isItSerialDatatype (c\<lparr>Sequence := '' nextval'' @ s\<rparr>)"
    by (simp add: isItSerialDatatype_def HasPrefix_def)
  have c: "\<forall>tc \<in> set ?coll.
             DBTables tc \<in> set tables
             \<and> Columns tc = filter ?keep (extractColumns env (DBTables tc))
             \<and> subseq (Columns tc) (extractColumns env (DBTables tc))
             \<and> (\<forall>c \<in> set (Columns tc). ?keep c)"
    by (auto simp: nonSerialColumns_prefix)
  have d: "\<forall>t \<in> set tables. \<forall>c \<in> set (extractColumns env t).
             ?keep c \<longrightarrow> (\<exists>tc \<in> set ?coll. DBTables tc = t \<and> c \<in> set (Columns tc))"
  proof (intro ballI impI)
    fix t c
    assume t: "t \<in> set tables" and cin: "c \<in> set (extractColumns env t)" and k: "?keep c"
    then have m: "c \<in> set (nonSerialColumns env t)"
      by (simp add: nonSerialColumns_prefix)
    then have "nonSerialColumns env t \<noteq> []"
      by auto
    with t have "\<lparr>DBTables = t, Columns = nonSerialColumns env t\<rparr> \<in> set ?coll"
      by auto
    with m show "\<exists>tc \<in> set ?coll. DBTables tc = t \<and> c \<in> set (Columns tc)"
      by (intro bexI[where x = "\<lparr>DBTables = t, Columns = nonSerialColumns env t\<rparr>"]) simp_all
  qed
  from c d have "\<exists>collection st'.
         columnExtractor env tables st = Return collection st'
         \<and> (\<forall>tc \<in> set collection.
               DBTables tc \<in> set tables
               \<and> Columns tc = filter ?keep (extractColumns env (DBTables tc))
               \<and> subseq (Columns tc) (extractColumns env (DBTables tc))
               \<and> (\<forall>c \<in> set (Columns tc). ?keep c))
         \<and> (\<forall>t \<in> set tables. \<forall>c \<in> set (extractColumns env t).
               ?keep c \<longrightarrow> (\<exists>tc \<in> set collection. DBTables tc = t \<and> c \<in> set (Columns tc)))"
    unfolding columnExtractor_eq by blast
  with a b b' show ?thesis
    by blast
qed

lemma demo_users_classified:
  "columnExtractor (demoEnv 3) [demoTable ''users''] (initState (0::nat)) =
     Return [\<lparr>DBTables = demoTable ''users'',
              Columns = [\<lparr>Column = ''name'', Datatype = ''text'', Sequence = []\<rparr>,
                         \<lparr>Column = ''age'', Datatype = ''integer'', Sequence = []\<rparr>]\<rparr>]
            (initState 0)"
  by code_simp


text \<open>
  Witness for C4: the table \<^verbatim>\<open>users\<close> with the serial column \<^verbatim>\<open>id\<close> and the
  columns \<^verbatim>\<open>name\<close> and \<^verbatim>\<open>age\<close>.
\<close>

theorem C4_sequence_backed_columns_filtered_witness:
  "\<lparr>DBTables = demoTable ''users'',
     Columns = [\<lparr>Column = ''name'', Datatype = ''text'', Sequence = []\<rparr>,
                \<lparr>Column = ''age'', Datatype = ''integer'', Sequence = []\<rparr>]\<rparr>
     \<in> set [\<lparr>DBTables = demoTable ''users'',
               Columns = [\<lparr>Column = ''name'', Datatype = ''text'', Sequence = []\<rparr>,
                          \<lparr>Column = ''age'', Datatype = ''integer'', Sequence = []\<rparr>]\<rparr>]
   \<and> columnExtractor (demoEnv 3) [demoTable ''users''] (initState (0::nat)) =
       Return [\<lparr>DBTables = demoTable ''users'',
                Columns = [\<lparr>Column = ''name'', Datatype = ''text'', Sequence = []\<rparr>,
                           \<lparr>Column = ''age'', Datatype = ''integer'', Sequence = []\<rparr>]\<rparr>]
              (initState 0)
   \<and> [\<lparr>Column = ''name'', Datatype = ''text'', Sequence = []\<rparr>,
       \<lparr>Column = ''age'', Datatype = ''integer'', Sequence = []\<rparr>]
       = filter (\<lambda>c. \<not> prefix ''nextval'' (Sequence c))
           (extractColumns (demoEnv 3) (demoTable ''users''))
   \<and> \<not> prefix ''nextval'' (Sequence \<lparr>Column = ''name'', Datatype = ''text'', Sequence = []\<rparr>)"
proof -
  let ?c = "\<lparr>Column = ''name'', Datatype = ''text'', Sequence = []\<rparr>"
  from C4_sequence_backed_columns_filtered
         [of ?c "[]" "demoEnv 3" "[demoTable ''users'']" "initState (0::nat)"]
  obtain collection st' where
    r: "columnExtractor (demoEnv 3) [demoTable ''users''] (initState (0::nat))
          = Return collection st'"
    and al: "\<forall>tc \<in> set collection.
               Columns tc = filter (\<lambda>c. \<not> prefix ''nextval'' (Sequence c))
                              (extractColumns (demoEnv 3) (DBTables tc))"
    by blast
  from r have c: "collection = [\<lparr>DBTables = demoTable ''users'',
                Columns = [\<lparr>Column = ''name'', Datatype = ''text'', Sequence = []\<rparr>,
                           \<lparr>Column = ''age'', Datatype = ''integer'', Sequence = []\<rparr>]\<rparr>]"
    and s: "st' = initState 0"
    by (simp_all add: demo_users_classified)
  from al c have "[\<lparr>Column = ''name'', Datatype = ''text'', Sequence = []\<rparr>,
       \<lparr>Column = ''age'', Datatype = ''integer'', Sequence = []\<rparr>]
       = filter (\<lambda>c. \<not> prefix ''nextval'' (Sequence c))
           (extractColumns (demoEnv 3) (demoTable ''users''))"
    by simp
  with r c s show ?thesis
    by simp
qed

lemma oneSerialColumn_iff:
  "oneSerialColumn env t \<longleftrightarrow> (\<exists>c. extractColumns env t = [c] \<and> isItSerialDatatype c)"
  by (auto simp: oneSerialColumn_def split: list.splits)

lemma nonSerialColumns_Nil:
  "nonSerialColumns env t = [] \<longleftrightarrow> (\<forall>c \<in> set (extractColumns env t). isItSerialDatatype c)"
  by (auto simp: nonSerialColumns_def filter_empty_conv)

text \<open>
  Claim C5. In a fresh process the classification returns; a table with exactly one
  column, that one sequence-backed, has its qualified name in \<^verbatim>\<open>oneColumnTable\<close> and
  no table collection; a table with no column, or with several columns all of them
  sequence-backed, has no table collection and, when no other table of the input
  shares its qualified name, its name is not in \<^verbatim>\<open>oneColumnTable\<close>.
\<close>

theorem C5_one_column_serial_tables:
  "\<exists>collection st'.
     columnExtractor env tables (initState w) = Return collection st'
     \<and> (\<forall>t \<in> set tables.
           (\<exists>c. extractColumns env t = [c] \<and> isItSerialDatatype c) \<longrightarrow>
           tableName t \<in> set (oneColumnTable st') \<and> t \<notin> DBTables ` set collection)
     \<and> (\<forall>t \<in> set tables.
           length (extractColumns env t) \<noteq> 1
           \<and> (\<forall>c \<in> set (extractColumns env t). isItSerialDatatype c)
           \<and> (\<forall>t' \<in> set tables. tableName t' = tableName t \<longrightarrow> t' = t) \<longrightarrow>
           tableName t \<notin> set (oneColumnTable st') \<and> t \<notin> DBTables ` set collection)"
proof -
  let ?coll = "map (\<lambda>t. \<lparr>DBTables = t, Columns = nonSerialColumns env t\<rparr>)
                 (filter (\<lambda>t. nonSerialColumns env t \<noteq> []) tables)"
  let ?st = "(initState w)\<lparr>oneColumnTable := oneColumnTable (initState w)
                   @ map tableName (filter (oneSerialColumn env) tables)\<rparr>"
  have inColl: "t \<notin> DBTables ` set ?coll"
    if "\<forall>c \<in> set (extractColumns env t). isItSerialDatatype c" for t
    using that by (auto simp: nonSerialColumns_Nil)
  have one: "\<forall>t \<in> set tables.
           (\<exists>c. extractColumns env t = [c] \<and> isItSerialDatatype c) \<longrightarrow>
           tableName t \<in> set (oneColumnTable ?st) \<and> t \<notin> DBTables ` set ?coll"
  proof (intro ballI impI)
    fix t
    assume t: "t \<in> set tables"
      and h: "\<exists>c. extractColumns env t = [c] \<and> isItSerialDatatype c"
    from h have "oneSerialColumn env t"
      by (simp add: oneSerialColumn_iff)
    with t have "tableName t \<in> set (oneColumnTable ?st)"
      by simp
    moreover from h have "\<forall>c \<in> set (extractColumns env t). isItSerialDatatype c"
      by auto
    then have "t \<notin> DBTables ` set ?coll"
      by (rule inColl)
    ultimately show "tableName t \<in> set (oneColumnTable ?st) \<and> t \<notin> DBTables ` set ?coll"
      by simp
  qed
  have many: "\<forall>t \<in> set tables.
           length (extractColumns env t) \<noteq> 1
           \<and> (\<forall>c \<in> set (extractColumns env t). isItSerialDatatype c)
           \<and> (\<forall>t' \<in> set tables. tableName t' = tableName t \<longrightarrow> t' = t) \<longrightarrow>
           tableName t \<notin> set (oneColumnTable ?st) \<and> t \<notin> DBTables ` set ?coll"
  proof (intro ballI impI, elim conjE)
    fix t
    assume t: "t \<in> set tables"
      and len: "length (extractColumns env t) \<noteq> 1"
      and ser: "\<forall>c \<in> set (extractColumns env t). isItSerialDatatype c"
      and uniq: "\<forall>t' \<in> set tables. tableName t' = tableName t \<longrightarrow> t' = t"
    from len have no: "\<not> oneSerialColumn env t"
      by (auto simp: oneSerialColumn_iff)
    have "tableName t \<notin> set (oneColumnTable ?st)"
    proof
      assume "tableName t \<in> set (oneColumnTable ?st)"
      then obtain t' where "t' \<in> set tables" "oneSerialColumn env t'" "tableName t' = tableName t"
        by (auto simp: initState_def)
      with uniq no show False
        by auto
    qed
    moreover from ser have "t \<notin> DBTables ` set ?coll"
      by (rule inColl)
    ultimately show "tableName t \<notin> set (oneColumnTable ?st) \<and> t \<notin> DBTables ` set ?coll"
      by simp
  qed
  have "columnExtractor env tables (initState w) = Return ?coll ?st"
    by (rule columnExtractor_eq)
  with one many show ?thesis
    by blast
qed


lemma demo_three_classified:
  "columnExtractor (demoEnv 3)
     [demoTable ''users'', demoTable ''counter'', demoTable ''pairs''] (initState (0::nat)) =
     Return [\<lparr>DBTables = demoTable ''users'',
              Columns = [\<lparr>Column = ''name'', Datatype = ''text'', Sequence = []\<rparr>,
                         \<lparr>Column = ''age'', Datatype = ''integer'', Sequence = []\<rparr>]\<rparr>]
            \<lparr>world = 0, skippedTab = [],
              oneColumnTable = [tableName (demoTable ''counter'')], trace = []\<rparr>"
  by code_simp

lemma demo_counter_columns:
  "extractColumns (demoEnv 3) (demoTable ''counter'') =
     [\<lparr>Column = ''id'', Datatype = ''integer'', Sequence = ''nextval(counter_id_seq)''\<rparr>]"
  by code_simp

lemma demo_pairs_columns:
  "extractColumns (demoEnv 3) (demoTable ''pairs'') =
     [\<lparr>Column = ''a'', Datatype = ''integer'', Sequence = ''nextval(a_seq)''\<rparr>,
      \<lparr>Column = ''b'', Datatype = ''integer'', Sequence = ''nextval(b_seq)''\<rparr>]"
  by code_simp

lemma demo_serial_columns:
  "isItSerialDatatype \<lparr>Column = ''id'', Datatype = ''integer'', Sequence = ''nextval(counter_id_seq)''\<rparr>"
  "isItSerialDatatype \<lparr>Column = ''a'', Datatype = ''integer'', Sequence = ''nextval(a_seq)''\<rparr>"
  "isItSerialDatatype \<lparr>Column = ''b'', Datatype = ''integer'', Sequence = ''nextval(b_seq)''\<rparr>"
  by code_simp+

lemma demo_names_differ:
  "tableName (demoTable ''users'') \<noteq> tableName (demoTable ''pairs'')"
  "tableName (demoTable ''counter'') \<noteq> tableName (demoTable ''pairs'')"
  "tableName (demoTable ''counter'') \<noteq> tableName (demoTable ''users'')"
  by code_simp+

text \<open>
  Witness for C5: \<^verbatim>\<open>counter\<close> has one serial column, \<^verbatim>\<open>pairs\<close> has two.
\<close>

theorem C5_one_column_serial_tables_witness:
  "columnExtractor (demoEnv 3)
     [demoTable ''users'', demoTable ''counter'', demoTable ''pairs''] (initState (0::nat)) =
     Return [\<lparr>DBTables = demoTable ''users'',
              Columns = [\<lparr>Column = ''name'', Datatype = ''text'', Sequence = []\<rparr>,
                         \<lparr>Column = ''age'', Datatype = ''integer'', Sequence = []\<rparr>]\<rparr>]
            \<lparr>world = 0, skippedTab = [],
              oneColumnTable = [tableName (demoTable ''counter'')], trace = []\<rparr>
   \<and> extractColumns (demoEnv 3) (demoTable ''counter'') =
       [\<lparr>Column = ''id'', Datatype = ''integer'', Sequence = ''nextval(counter_id_seq)''\<rparr>]
   \<and> isItSerialDatatype
       \<lparr>Column = ''id'', Datatype = ''integer'', Sequence = ''nextval(counter_id_seq)''\<rparr>
   \<and> tableName (demoTable ''counter'') \<in> set [tableName (demoTable ''counter'')]
   \<and> demoTable ''counter'' \<notin> DBTables ` set [\<lparr>DBTables = demoTable ''users'',
              Columns = [\<lparr>Column = ''name'', Datatype = ''text'', Sequence = []\<rparr>,
                         \<lparr>Column = ''age'', Datatype = ''integer'', Sequence = []\<rparr>]\<rparr>]
   \<and> length (extractColumns (demoEnv 3) (demoTable ''pairs'')) = 2
   \<and> list_all isItSerialDatatype (extractColumns (demoEnv 3) (demoTable ''pairs''))
   \<and> tableName (demoTable ''pairs'') \<notin> set [tableName (demoTable ''counter'')]
   \<and> demoTable ''pairs'' \<notin> DBTables ` set [\<lparr>DBTables = demoTable ''users'',
              Columns = [\<lparr>Column = ''name'', Datatype = ''text'', Sequence = []\<rparr>,
                         \<lparr>Column = ''age'', Datatype = ''integer'', Sequence = []\<rparr>]\<rparr>]"
proof -
  let ?tables = "[demoTable ''users'', demoTable ''counter'', demoTable ''pairs'']"
  from C5_one_column_serial_tables [of "demoEnv 3" ?tables "0::nat"]
  obtain collection st' where
    r: "columnExtractor (demoEnv 3) ?tables (initState (0::nat)) = Return collection st'"
    and one: "\<forall>t \<in> set ?tables.
           (\<exists>c. extractColumns (demoEnv 3) t = [c] \<and> isItSerialDatatype c) \<longrightarrow>
           tableName t \<in> set (oneColumnTable st') \<and> t \<notin> DBTables ` set collection"
    and many: "\<forall>t \<in> set ?tables.
           length (extractColumns (demoEnv 3) t) \<noteq> 1
           \<and> (\<forall>c \<in> set (extractColumns (demoEnv 3) t). isItSerialDatatype c)
           \<and> (\<forall>t' \<in> set ?tables. tableName t' = tableName t \<longrightarrow> t' = t) \<longrightarrow>
           tableName t \<notin> set (oneColumnTable st') \<and> t \<notin> DBTables ` set collection"
    by blast
  from r have c: "collection = [\<lparr>DBTables = demoTable ''users'',
              Columns = [\<lparr>Column = ''name'', Datatype = ''text'', Sequence = []\<rparr>,
                         \<lparr>Column = ''age'', Datatype = ''integer'', Sequence = []\<rparr>]\<rparr>]"
    and s: "st' = \<lparr>world = 0, skippedTab = [],
              oneColumnTable = [tableName (demoTable ''counter'')], trace = []\<rparr>"
    by (simp_all add: demo_three_classified)
  have "(\<exists>c. extractColumns (demoEnv 3) (demoTable ''counter'') = [c] \<and> isItSerialDatatype c)"
    by (simp add: demo_counter_columns demo_serial_columns)
  with one have 1: "tableName (demoTable ''counter'') \<in> set (oneColumnTable st')
      \<and> demoTable ''counter'' \<notin> DBTables ` set collection"
    by simp
  have "length (extractColumns (demoEnv 3) (demoTable ''pairs'')) \<noteq> 1
           \<and> (\<forall>c \<in> set (extractColumns (demoEnv 3) (demoTable ''pairs'')). isItSerialDatatype c)
           \<and> (\<forall>t' \<in> set ?tables. tableName t' = tableName (demoTable ''pairs'')
                  \<longrightarrow> t' = demoTable ''pairs'')"
    by (simp add: demo_pairs_columns demo_serial_columns demo_names_differ)
  with many have 2: "tableName (demoTable ''pairs'') \<notin> set (oneColumnTable st')
      \<and> demoTable ''pairs'' \<notin> DBTables ` set collection"
    by simp
  from 1 2 show ?thesis
    unfolding c s
    by (simp add: demo_three_classified demo_counter_columns demo_pairs_columns
        demo_serial_columns)
qed

text \<open>
  Claim C3, as amended. Classifying the same tables a second time returns the same
  table collections, and these do not depend on the state; the set of names in
  \<^verbatim>\<open>oneColumnTable\<close> is the same after the second run as after the first. But each
  run appends the names of its one-column serial tables to the package-level list, so
  after the second run each of them is listed once more: the list is observable
  state of the classification.
\<close>

theorem C3_classification_twice:
  "\<exists>collection added st1 st2.
     columnExtractor env tables st = Return collection st1
     \<and> columnExtractor env tables st1 = Return collection st2
     \<and> (\<forall>s. \<exists>s'. columnExtractor env tables s = Return collection s')
     \<and> st1 = st\<lparr>oneColumnTable := oneColumnTable st @ added\<rparr>
     \<and> st2 = st1\<lparr>oneColumnTable := oneColumnTable st1 @ added\<rparr>
     \<and> set (oneColumnTable st2) = set (oneColumnTable st1)"
proof -
  let ?coll = "map (\<lambda>t. \<lparr>DBTables = t, Columns = nonSerialColumns env t\<rparr>)
                 (filter (\<lambda>t. nonSerialColumns env t \<noteq> []) tables)"
  let ?added = "map tableName (filter (oneSerialColumn env) tables)"
  let ?st1 = "st\<lparr>oneColumnTable := oneColumnTable st @ ?added\<rparr>"
  let ?st2 = "?st1\<lparr>oneColumnTable := oneColumnTable ?st1 @ ?added\<rparr>"
  have 1: "columnExtractor env tables st = Return ?coll ?st1"
    by (rule columnExtractor_eq)
  have 2: "columnExtractor env tables ?st1 = Return ?coll ?st2"
    by (rule columnExtractor_eq)
  have 3: "\<forall>s. \<exists>s'. columnExtractor env tables s = Return ?coll s'"
    by (simp add: columnExtractor_eq)
  have 4: "set (oneColumnTable ?st2) = set (oneColumnTable ?st1)"
    by auto
  from 1 2 3 4 show ?thesis
    by blast
qed

text \<open>
  Counterexample to C3 as stated: classifying the table \<^verbatim>\<open>counter\<close> twice leaves
  \<^verbatim>\<open>oneColumnTable\<close> with two entries where one run leaves one.
\<close>

theorem C3_classification_twice_counterexample:
  "columnExtractor (demoEnv 5) [demoTable ''counter''] (initState (0::nat)) =
     Return [] \<lparr>world = 0, skippedTab = [],
                 oneColumnTable = [tableName (demoTable ''counter'')], trace = []\<rparr>
   \<and> columnExtractor (demoEnv 5) [demoTable ''counter'']
       \<lparr>world = 0::nat, skippedTab = [],
         oneColumnTable = [tableName (demoTable ''counter'')], trace = []\<rparr> =
     Return [] \<lparr>world = 0, skippedTab = [],
                 oneColumnTable = [tableName (demoTable ''counter''),
                                   tableName (demoTable ''counter'')], trace = []\<rparr>
   \<and> [tableName (demoTable ''counter'')]
       \<noteq> [tableName (demoTable ''counter''), tableName (demoTable ''counter'')]"
  by code_simp

text \<open>
  Claim C2, on the code. With the single table \<^verbatim>\<open>counter\<close> and five rows, the
  classifier puts \<^verbatim>\<open>counter\<close> into \<^verbatim>\<open>oneColumnTable\<close> and returns no table
  collection; \<^verbatim>\<open>tableMocker\<close> then finds no collection, warns and returns, so the
  run never reaches \<^verbatim>\<open>addDataIfItsASerialDatatype\<close> and issues no insertion. Called
  on the state the classifier left, the loader issues the five insertions.
\<close>

theorem C2_counter_table_gets_no_row:
  "columnExtractor (demoEnv 5) [demoTable ''counter''] (initState (0::nat)) =
     Return [] \<lparr>world = 0, skippedTab = [],
                 oneColumnTable = [tableName (demoTable ''counter'')], trace = []\<rparr>
   \<and> MockTable (demoEnv 5) [demoTable ''counter''] (initState (0::nat)) =
     Return () \<lparr>world = 0, skippedTab = [],
                 oneColumnTable = [tableName (demoTable ''counter'')],
                 trace = [Log Warning ''No columns available to mock the data, closing the program'',
                          FixConstraints]\<rparr>
   \<and> addDataIfItsASerialDatatype (demoEnv 5)
       \<lparr>world = 0::nat, skippedTab = [],
         oneColumnTable = [tableName (demoTable ''counter'')], trace = []\<rparr> =
     Return () \<lparr>world = 0, skippedTab = [],
                 oneColumnTable = [tableName (demoTable ''counter'')],
                 trace = replicate 5
                   (ExecuteDB (''INSERT INTO '' @ tableName (demoTable ''counter'')
                                 @ '' default values;'') None)\<rparr>"
  by code_simp

subsection \<open>Loading a table\<close>


declare rowLoop.simps [simp del]
declare insertLoop.simps [simp del]

lemma columnLoop_Built:
  "columnLoop env tab cs col data st = Return (Built col' data') st' \<Longrightarrow>
     col' = col @ map Column cs
     \<and> (\<exists>ds. data' = data @ ds \<and> list_all2 (generated env) cs ds)
     \<and> trace st' = trace st \<and> skippedTab st' = skippedTab st
     \<and> oneColumnTable st' = oneColumnTable st"
proof (induction cs arbitrary: col data st)
  case Nil
  then show ?case by simp
next
  case (Cons c cs)
  obtain res w where b: "BuildData env (Datatype c) (world st) = (res, w)"
    by (cases "BuildData env (Datatype c) (world st)")
  show ?case
  proof (cases res)
    case (Inl err)
    with b Cons.prems show ?thesis
      by (simp split: if_splits)
  next
    case (Inr d)
    with b Cons.prems
    have "columnLoop env tab cs (col @ [Column c]) (data @ [d]) (st\<lparr>world := w\<rparr>)
            = Return (Built col' data') st'"
      by simp
    from Cons.IH[OF this] obtain ds where
      "col' = (col @ [Column c]) @ map Column cs" "data' = (data @ [d]) @ ds"
      "list_all2 (generated env) cs ds" "trace st' = trace st"
      "skippedTab st' = skippedTab st" "oneColumnTable st' = oneColumnTable st"
      by auto
    moreover from b Inr have "generated env c d"
      by (auto simp: generated_def intro: exI[where x = "world st"])
    ultimately show ?thesis
      by (auto intro: exI[where x = "d # ds"])
  qed
qed

lemma columnLoop_Break:
  "columnLoop env tab cs col data st = Return BreakDataTypePickerLoop st' \<Longrightarrow>
     skippedTab st' = skippedTab st @ [tab]
     \<and> (\<exists>msg. trace st' = trace st @ [Log Debug msg])
     \<and> oneColumnTable st' = oneColumnTable st"
proof (induction cs arbitrary: col data st)
  case Nil
  then show ?case by simp
next
  case (Cons c cs)
  obtain res w where b: "BuildData env (Datatype c) (world st) = (res, w)"
    by (cases "BuildData env (Datatype c) (world st)")
  show ?case
  proof (cases res)
    case (Inl err)
    with b Cons.prems show ?thesis
      by (auto simp: logf_def split: if_splits)
  next
    case (Inr d)
    with b Cons.prems
    have "columnLoop env tab cs (col @ [Column c]) (data @ [d]) (st\<lparr>world := w\<rparr>)
            = Return BreakDataTypePickerLoop st'"
      by simp
    from Cons.IH[OF this] show ?thesis
      by simp
  qed
qed

lemma columnLoop_Exit:
  "columnLoop env tab cs col data st = Exit msg st' \<Longrightarrow>
     trace st' = trace st \<and> skippedTab st' = skippedTab st
     \<and> oneColumnTable st' = oneColumnTable st
     \<and> (\<exists>err. msg = ''Error when building data for table '' @ tab @ '': '' @ err
          \<and> \<not> HasPrefix err ''unsupported datatypes found''
          \<and> (\<exists>c \<in> set cs. \<exists>w. fst (BuildData env (Datatype c) w) = Inl err))"
proof (induction cs arbitrary: col data st)
  case Nil
  then show ?case by simp
next
  case (Cons c cs)
  obtain res w where b: "BuildData env (Datatype c) (world st) = (res, w)"
    by (cases "BuildData env (Datatype c) (world st)")
  show ?case
  proof (cases res)
    case (Inl err)
    with b Cons.prems have "\<not> HasPrefix err ''unsupported datatypes found''"
      and "msg = ''Error when building data for table '' @ tab @ '': '' @ err"
      and "st' = st\<lparr>world := w\<rparr>"
      by (simp_all split: if_splits)
    moreover from b Inl have "fst (BuildData env (Datatype c) (world st)) = Inl err"
      by simp
    ultimately show ?thesis
      by auto
  next
    case (Inr d)
    with b Cons.prems
    have "columnLoop env tab cs (col @ [Column c]) (data @ [d]) (st\<lparr>world := w\<rparr>)
            = Exit msg st'"
      by simp
    from Cons.IH[OF this] show ?thesis
      by auto
  qed
qed

lemma CopyData_None:
  "CopyFromDB env (Join data delimiter) (copyStatement tab col) (world st) = (None, w) \<Longrightarrow>
   CopyData env tab col data st =
     Return () (st\<lparr>world := w,
       trace := trace st @ [CopyFrom tab (copyStatement tab col) (Join data delimiter) None]\<rparr>)"
  by (simp add: CopyData_def Let_def)

lemma CopyData_Some:
  "CopyFromDB env (Join data delimiter) (copyStatement tab col) (world st) = (Some e, w) \<Longrightarrow>
   CopyData env tab col data st =
     Exit (''Error during committing data: '' @ e)
       (st\<lparr>world := w,
          trace := trace st @
            [CopyFrom tab (copyStatement tab col) (Join data delimiter) (Some e),
             Log Debug (''Table: '' @ tab),
             Log Debug (''Copy Statement: '' @ copyStatement tab col),
             Log Debug (''Data: '' @ Join data delimiter)]\<rparr>)"
  by (simp add: CopyData_def Let_def logf_def)


lemma CopyData_Return:
  assumes "CopyData env tab col data st = Return u st'"
  shows "trace st' = trace st @ [CopyFrom tab (copyStatement tab col) (Join data delimiter) None]
     \<and> skippedTab st' = skippedTab st \<and> oneColumnTable st' = oneColumnTable st"
proof -
  obtain err w where
    c: "CopyFromDB env (Join data delimiter) (copyStatement tab col) (world st) = (err, w)"
    by (cases "CopyFromDB env (Join data delimiter) (copyStatement tab col) (world st)")
  show ?thesis
  proof (cases err)
    case None
    with c have "CopyData env tab col data st =
      Return () (st\<lparr>world := w,
        trace := trace st @ [CopyFrom tab (copyStatement tab col) (Join data delimiter) None]\<rparr>)"
      by (simp add: CopyData_None)
    with assms have "st' = st\<lparr>world := w,
        trace := trace st @ [CopyFrom tab (copyStatement tab col) (Join data delimiter) None]\<rparr>"
      by simp
    then show ?thesis by simp
  next
    case (Some e)
    with c have "\<exists>m s. CopyData env tab col data st = Exit m s"
      by (simp add: CopyData_Some)
    with assms show ?thesis by auto
  qed
qed

lemma CopyData_Exit:
  assumes "CopyData env tab col data st = Exit msg st'"
  shows "\<exists>e. msg = ''Error during committing data: '' @ e
       \<and> trace st' = trace st @
            [CopyFrom tab (copyStatement tab col) (Join data delimiter) (Some e),
             Log Debug (''Table: '' @ tab),
             Log Debug (''Copy Statement: '' @ copyStatement tab col),
             Log Debug (''Data: '' @ Join data delimiter)]
       \<and> skippedTab st' = skippedTab st \<and> oneColumnTable st' = oneColumnTable st"
proof -
  obtain err w where
    c: "CopyFromDB env (Join data delimiter) (copyStatement tab col) (world st) = (err, w)"
    by (cases "CopyFromDB env (Join data delimiter) (copyStatement tab col) (world st)")
  show ?thesis
  proof (cases err)
    case None
    with c have "\<exists>s. CopyData env tab col data st = Return () s"
      by (simp add: CopyData_None)
    with assms show ?thesis by auto
  next
    case (Some e)
    let ?s = "st\<lparr>world := w,
          trace := trace st @
            [CopyFrom tab (copyStatement tab col) (Join data delimiter) (Some e),
             Log Debug (''Table: '' @ tab),
             Log Debug (''Copy Statement: '' @ copyStatement tab col),
             Log Debug (''Data: '' @ Join data delimiter)]\<rparr>"
    from Some c have "CopyData env tab col data st =
        Exit (''Error during committing data: '' @ e) ?s"
      by (simp only: CopyData_Some)
    with assms have m: "msg = ''Error during committing data: '' @ e" and s: "st' = ?s"
      by simp_all
    from s have "trace st' = trace st @
            [CopyFrom tab (copyStatement tab col) (Join data delimiter) (Some e),
             Log Debug (''Table: '' @ tab),
             Log Debug (''Copy Statement: '' @ copyStatement tab col),
             Log Debug (''Data: '' @ Join data delimiter)]"
      and "skippedTab st' = skippedTab st" and "oneColumnTable st' = oneColumnTable st"
      by simp_all
    with m show ?thesis by blast
  qed
qed

lemma rowLoop_done:
  "\<not> i < Rows (cmdOptions env) \<Longrightarrow> rowLoop env t tab i st = Return () st"
  by (subst rowLoop.simps) simp

lemma rowLoop_Built:
  "i < Rows (cmdOptions env) \<Longrightarrow>
   columnLoop env tab (Columns t) [] [] st = Return (Built col data) st1 \<Longrightarrow>
   CopyData env tab col data st1 = Return u st2 \<Longrightarrow>
   rowLoop env t tab i st = rowLoop env t tab (i + 1) st2"
  by (subst rowLoop.simps) simp

lemma rowLoop_Break:
  "i < Rows (cmdOptions env) \<Longrightarrow>
   columnLoop env tab (Columns t) [] [] st = Return BreakDataTypePickerLoop st1 \<Longrightarrow>
   rowLoop env t tab i st = Return () st1"
  by (subst rowLoop.simps) simp

lemma rowLoop_Exit_build:
  "i < Rows (cmdOptions env) \<Longrightarrow>
   columnLoop env tab (Columns t) [] [] st = Exit msg st1 \<Longrightarrow>
   rowLoop env t tab i st = Exit msg st1"
  by (subst rowLoop.simps) simp

lemma rowLoop_Exit_copy:
  "i < Rows (cmdOptions env) \<Longrightarrow>
   columnLoop env tab (Columns t) [] [] st = Return (Built col data) st1 \<Longrightarrow>
   CopyData env tab col data st1 = Exit msg st2 \<Longrightarrow>
   rowLoop env t tab i st = Exit msg st2"
  by (subst rowLoop.simps) simp

lemma afterRows_Suc:
  assumes "afterRows env t tab (Suc n) st = Some s"
  obtains col data st1 u st2 where
    "columnLoop env tab (Columns t) [] [] st = Return (Built col data) st1"
    "CopyData env tab col data st1 = Return u st2"
    "afterRows env t tab n st2 = Some s"
proof (cases "columnLoop env tab (Columns t) [] [] st")
  case (Exit m s1)
  with assms show ?thesis by simp
next
  case (Return r st1)
  show ?thesis
  proof (cases r)
    case BreakDataTypePickerLoop
    with Return assms show ?thesis by simp
  next
    case (Built col data)
    show ?thesis
    proof (cases "CopyData env tab col data st1")
      case (Exit m s2)
      with Return Built assms show ?thesis by simp
    next
      case r2: (Return u st2)
      with Return Built assms have "afterRows env t tab n st2 = Some s" by simp
      with Return Built r2 that show ?thesis by simp
    qed
  qed
qed

lemma rowLoop_afterRows:
  "afterRows env t tab n st = Some s \<Longrightarrow> i + int n \<le> Rows (cmdOptions env) \<Longrightarrow>
   rowLoop env t tab i st = rowLoop env t tab (i + int n) s"
proof (induction n arbitrary: i st)
  case 0
  then show ?case by simp
next
  case (Suc n)
  from Suc.prems(1) obtain col data st1 u st2 where
    b: "columnLoop env tab (Columns t) [] [] st = Return (Built col data) st1"
    and c: "CopyData env tab col data st1 = Return u st2"
    and a: "afterRows env t tab n st2 = Some s"
    by (rule afterRows_Suc)
  from Suc.prems(2) have lt: "i < Rows (cmdOptions env)" and le: "(i + 1) + int n \<le> Rows (cmdOptions env)"
    by simp_all
  have "rowLoop env t tab i st = rowLoop env t tab (i + 1) st2"
    using lt b c by (rule rowLoop_Built)
  also have "\<dots> = rowLoop env t tab ((i + 1) + int n) s"
    using a le by (rule Suc.IH)
  also have "(i + 1) + int n = i + int (Suc n)"
    by simp
  finally show ?case .
qed


lemma afterRows_trace:
  "afterRows env t tab n st = Some s \<Longrightarrow>
     skippedTab s = skippedTab st \<and> oneColumnTable s = oneColumnTable st
     \<and> (\<exists>rows. length rows = n
          \<and> (\<forall>r \<in> set rows. snd r = None \<and> list_all2 (generated env) (Columns t) (fst r))
          \<and> trace s = trace st @ map (copyOfRow tab t) rows)"
proof (induction n arbitrary: st)
  case 0
  then show ?case by simp
next
  case (Suc n)
  from Suc.prems obtain col data st1 u st2 where
    b: "columnLoop env tab (Columns t) [] [] st = Return (Built col data) st1"
    and c: "CopyData env tab col data st1 = Return u st2"
    and a: "afterRows env t tab n st2 = Some s"
    by (rule afterRows_Suc)
  from columnLoop_Built[OF b] have col: "col = map Column (Columns t)"
    and gen: "list_all2 (generated env) (Columns t) data"
    and b1: "trace st1 = trace st" "skippedTab st1 = skippedTab st"
      "oneColumnTable st1 = oneColumnTable st"
    by auto
  from CopyData_Return[OF c] col b1 have
    c1: "trace st2 = trace st @ [copyOfRow tab t (data, None)]"
      "skippedTab st2 = skippedTab st" "oneColumnTable st2 = oneColumnTable st"
    by (simp_all add: copyOfRow_def)
  from Suc.IH[OF a] obtain rows where
    r: "length rows = n"
      "\<forall>r \<in> set rows. snd r = None \<and> list_all2 (generated env) (Columns t) (fst r)"
      "trace s = trace st2 @ map (copyOfRow tab t) rows"
    and k: "skippedTab s = skippedTab st2" "oneColumnTable s = oneColumnTable st2"
    by auto
  let ?rows = "(data, None) # rows"
  have "length ?rows = Suc n" using r(1) by simp
  moreover have "\<forall>r \<in> set ?rows. snd r = None \<and> list_all2 (generated env) (Columns t) (fst r)"
    using r(2) gen by simp
  moreover have "trace s = trace st @ map (copyOfRow tab t) ?rows"
    using r(3) c1(1) by simp
  ultimately have "\<exists>rows. length rows = Suc n
          \<and> (\<forall>r \<in> set rows. snd r = None \<and> list_all2 (generated env) (Columns t) (fst r))
          \<and> trace s = trace st @ map (copyOfRow tab t) rows"
    by blast
  with k c1 show ?case by simp
qed

lemma committed_append [simp]:
  "committed tab (xs @ ys) = committed tab xs + committed tab ys"
  by (simp add: committed_def)

lemma committed_rows:
  "\<forall>r \<in> set rows. snd r = None \<Longrightarrow> committed tab (map (copyOfRow tab t) rows) = length rows"
  by (induction rows) (simp_all add: committed_def copyOfRow_def)

lemma afterRows_committed:
  assumes "afterRows env t tab n st = Some s"
  shows "committed tab (trace s) = committed tab (trace st) + n"
proof -
  from afterRows_trace[OF assms] obtain rows where
    "length rows = n" "\<forall>r \<in> set rows. snd r = None"
    "trace s = trace st @ map (copyOfRow tab t) rows"
    by auto
  then show ?thesis
    by (simp add: committed_rows)
qed

lemma rowLoop_complete:
  "rowLoop env t tab i st = Return u st' \<Longrightarrow> skippedTab st' = skippedTab st \<Longrightarrow>
   i \<le> Rows (cmdOptions env) \<Longrightarrow>
   afterRows env t tab (nat (Rows (cmdOptions env) - i)) st = Some st'"
proof (induction "nat (Rows (cmdOptions env) - i)" arbitrary: i st)
  case 0
  then have "\<not> i < Rows (cmdOptions env)" by simp
  with "0.prems"(1) have "st' = st" by (simp add: rowLoop_done)
  with 0 show ?case by simp
next
  case (Suc n)
  then have lt: "i < Rows (cmdOptions env)" by simp
  from Suc.hyps(2) have n: "n = nat (Rows (cmdOptions env) - (i + 1))" by simp
  show ?case
  proof (cases "columnLoop env tab (Columns t) [] [] st")
    case (Exit m s1)
    with lt Suc.prems(1) show ?thesis by (simp add: rowLoop_Exit_build)
  next
    case (Return r st1)
    show ?thesis
    proof (cases r)
      case BreakDataTypePickerLoop
      with Return lt Suc.prems(1) have "st' = st1" by (simp add: rowLoop_Break)
      with Return BreakDataTypePickerLoop columnLoop_Break[of env tab "Columns t" "[]" "[]" st st1]
      have "skippedTab st' = skippedTab st @ [tab]" by simp
      with Suc.prems(2) show ?thesis by simp
    next
      case (Built col data)
      show ?thesis
      proof (cases "CopyData env tab col data st1")
        case (Exit m s2)
        with Return Built lt Suc.prems(1) show ?thesis by (simp add: rowLoop_Exit_copy)
      next
        case r2: (Return u2 st2)
        from Return Built have b: "columnLoop env tab (Columns t) [] [] st = Return (Built col data) st1"
          by simp
        from rowLoop_Built[OF lt b r2] Suc.prems(1)
        have rl: "rowLoop env t tab (i + 1) st2 = Return u st'" by simp
        from columnLoop_Built[OF b] CopyData_Return[OF r2]
        have "skippedTab st2 = skippedTab st" by simp
        with Suc.prems(2) have sk: "skippedTab st' = skippedTab st2" by simp
        from lt have le: "i + 1 \<le> Rows (cmdOptions env)" by simp
        from Suc.hyps(1)[OF n rl sk le]
        have "afterRows env t tab n st2 = Some st'" using n by simp
        with b r2 have "afterRows env t tab (Suc n) st = Some st'" by simp
        with Suc.hyps(2) show ?thesis by simp
      qed
    qed
  qed
qed


lemma columnLoop_append:
  "columnLoop env tab xs col data st = Return (Built col' data') sk \<Longrightarrow>
   columnLoop env tab (xs @ ys) col data st = columnLoop env tab ys col' data' sk"
proof (induction xs arbitrary: col data st)
  case Nil
  then show ?case by simp
next
  case (Cons c cs)
  obtain res w where b: "BuildData env (Datatype c) (world st) = (res, w)"
    by (cases "BuildData env (Datatype c) (world st)")
  show ?case
  proof (cases res)
    case (Inl err)
    with b Cons.prems show ?thesis
      by (simp split: if_splits)
  next
    case (Inr d)
    with b Cons.prems
    have "columnLoop env tab cs (col @ [Column c]) (data @ [d]) (st\<lparr>world := w\<rparr>)
            = Return (Built col' data') sk"
      by simp
    from Cons.IH[OF this] b Inr show ?thesis
      by simp
  qed
qed

lemma columnLoop_fails_at:
  assumes "k < length cs"
    and "columnLoop env tab (take k cs) col data st = Return (Built col' data') sk"
    and "BuildData env (Datatype (cs ! k)) (world sk) = (Inl err, w)"
  shows "columnLoop env tab cs col data st =
     (if HasPrefix err ''unsupported datatypes found''
      then Return BreakDataTypePickerLoop
             ((logf Debug
                 (''Table '' @ tab @ '' skipped, since the column '' @ Column (cs ! k)
                    @ '', had unknown data type '' @ Datatype (cs ! k) @ '': '' @ err)
                 (sk\<lparr>world := w\<rparr>))
              \<lparr>skippedTab := skippedTab sk @ [tab]\<rparr>)
      else Exit (''Error when building data for table '' @ tab @ '': '' @ err)
             (sk\<lparr>world := w\<rparr>))"
proof -
  from assms(1) have "cs = take k cs @ (cs ! k) # drop (Suc k) cs"
    by (simp add: id_take_nth_drop)
  then have "columnLoop env tab cs col data st
      = columnLoop env tab (take k cs @ (cs ! k) # drop (Suc k) cs) col data st"
    by simp
  also have "\<dots> = columnLoop env tab ((cs ! k) # drop (Suc k) cs) col' data' sk"
    using assms(2) by (rule columnLoop_append)
  also have "\<dots> = (if HasPrefix err ''unsupported datatypes found''
      then Return BreakDataTypePickerLoop
             ((logf Debug
                 (''Table '' @ tab @ '' skipped, since the column '' @ Column (cs ! k)
                    @ '', had unknown data type '' @ Datatype (cs ! k) @ '': '' @ err)
                 (sk\<lparr>world := w\<rparr>))
              \<lparr>skippedTab := skippedTab sk @ [tab]\<rparr>)
      else Exit (''Error when building data for table '' @ tab @ '': '' @ err)
             (sk\<lparr>world := w\<rparr>))"
    using assms(3) by simp
  finally show ?thesis .
qed

lemma rowLoop_trace:
  "\<exists>rows logs.
     trace (final (rowLoop env t tab i st))
       = trace st @ map (copyOfRow tab t) rows @ map (Log Debug) logs
     \<and> (\<forall>r \<in> set rows. list_all2 (generated env) (Columns t) (fst r))
     \<and> int (length rows) \<le> max 0 (Rows (cmdOptions env) - i)
     \<and> oneColumnTable (final (rowLoop env t tab i st)) = oneColumnTable st"
proof (induction "nat (Rows (cmdOptions env) - i)" arbitrary: i st)
  case 0
  then have "\<not> i < Rows (cmdOptions env)" by simp
  then have "rowLoop env t tab i st = Return () st" by (rule rowLoop_done)
  then have "trace (final (rowLoop env t tab i st))
       = trace st @ map (copyOfRow tab t) [] @ map (Log Debug) []"
    and "oneColumnTable (final (rowLoop env t tab i st)) = oneColumnTable st"
    by simp_all
  then show ?case by (intro exI[where x = "[]"]) simp
next
  case (Suc n)
  then have lt: "i < Rows (cmdOptions env)" by simp
  from Suc.hyps(2) have n: "n = nat (Rows (cmdOptions env) - (i + 1))" by simp
  let ?r = "rowLoop env t tab i st"
  show ?case
  proof (cases "columnLoop env tab (Columns t) [] [] st")
    case (Exit m s1)
    with lt have "?r = Exit m s1" by (simp add: rowLoop_Exit_build)
    with columnLoop_Exit[OF Exit] have
      "trace (final ?r) = trace st @ map (copyOfRow tab t) [] @ map (Log Debug) []"
      "oneColumnTable (final ?r) = oneColumnTable st"
      by simp_all
    then show ?thesis by (intro exI[where x = "[]"]) simp
  next
    case (Return r st1)
    show ?thesis
    proof (cases r)
      case BreakDataTypePickerLoop
      with Return have b: "columnLoop env tab (Columns t) [] [] st = Return BreakDataTypePickerLoop st1"
        by simp
      with lt have "?r = Return () st1" by (simp add: rowLoop_Break)
      moreover from columnLoop_Break[OF b] obtain msg where
        "trace st1 = trace st @ [Log Debug msg]" "oneColumnTable st1 = oneColumnTable st"
        by auto
      ultimately have
        "trace (final ?r) = trace st @ map (copyOfRow tab t) [] @ map (Log Debug) [msg]"
        "oneColumnTable (final ?r) = oneColumnTable st"
        by simp_all
      then show ?thesis
        by (intro exI[where x = "[]"] exI[where x = "[msg]"]) simp
    next
      case (Built col data)
      with Return have b: "columnLoop env tab (Columns t) [] [] st = Return (Built col data) st1"
        by simp
      from columnLoop_Built[OF b] have col: "col = map Column (Columns t)"
        and gen: "list_all2 (generated env) (Columns t) data"
        and b1: "trace st1 = trace st" "oneColumnTable st1 = oneColumnTable st"
        by auto
      show ?thesis
      proof (cases "CopyData env tab col data st1")
        case (Exit m s2)
        with lt b have r: "?r = Exit m s2" by (simp add: rowLoop_Exit_copy)
        from CopyData_Exit[OF Exit] obtain e where
          "trace s2 = trace st1 @
            [CopyFrom tab (copyStatement tab col) (Join data delimiter) (Some e),
             Log Debug (''Table: '' @ tab),
             Log Debug (''Copy Statement: '' @ copyStatement tab col),
             Log Debug (''Data: '' @ Join data delimiter)]"
          "oneColumnTable s2 = oneColumnTable st1"
          by auto
        with r col b1 have
          "trace (final ?r) = trace st @ map (copyOfRow tab t) [(data, Some e)]
             @ map (Log Debug) [''Table: '' @ tab, ''Copy Statement: '' @ copyStatement tab col,
                                ''Data: '' @ Join data delimiter]"
          "oneColumnTable (final ?r) = oneColumnTable st"
          by (simp_all add: copyOfRow_def)
        moreover have "\<forall>r \<in> set [(data, Some e)]. list_all2 (generated env) (Columns t) (fst r)"
          using gen by simp
        moreover have "int (length [(data, Some e)]) \<le> max 0 (Rows (cmdOptions env) - i)"
          using lt by simp
        ultimately show ?thesis by blast
      next
        case r2: (Return u2 st2)
        from rowLoop_Built[OF lt b r2] have r: "?r = rowLoop env t tab (i + 1) st2" .
        from CopyData_Return[OF r2] col b1 have
          c1: "trace st2 = trace st @ [copyOfRow tab t (data, None)]"
            "oneColumnTable st2 = oneColumnTable st"
          by (simp_all add: copyOfRow_def)
        from Suc.hyps(1)[OF n, of st2] obtain rows logs where
          ih: "trace (final (rowLoop env t tab (i + 1) st2))
                 = trace st2 @ map (copyOfRow tab t) rows @ map (Log Debug) logs"
            "\<forall>r \<in> set rows. list_all2 (generated env) (Columns t) (fst r)"
            "int (length rows) \<le> max 0 (Rows (cmdOptions env) - (i + 1))"
            "oneColumnTable (final (rowLoop env t tab (i + 1) st2)) = oneColumnTable st2"
          by blast
        let ?rows = "(data, None) # rows"
        from ih(1) c1(1) r have
          "trace (final ?r) = trace st @ map (copyOfRow tab t) ?rows @ map (Log Debug) logs"
          by simp
        moreover from ih(2) gen have
          "\<forall>r \<in> set ?rows. list_all2 (generated env) (Columns t) (fst r)"
          by simp
        moreover from ih(3) lt have "int (length ?rows) \<le> max 0 (Rows (cmdOptions env) - i)"
          by simp
        moreover from ih(4) c1(2) r have "oneColumnTable (final ?r) = oneColumnTable st"
          by simp
        ultimately show ?thesis by blast
      qed
    qed
  qed
qed


lemma call_fields [simp]:
  "trace (call env ev st) = trace st @ [ev]"
  "skippedTab (call env ev st) = skippedTab st"
  "oneColumnTable (call env ev st) = oneColumnTable st"
  by (simp_all add: call_def)

lemma logf_fields [simp]:
  "trace (logf lvl msg st) = trace st @ [Log lvl msg]"
  "skippedTab (logf lvl msg st) = skippedTab st"
  "oneColumnTable (logf lvl msg st) = oneColumnTable st"
  "world (logf lvl msg st) = world st"
  by (simp_all add: logf_def)

lemma committed_Nil [simp]: "committed tab [] = 0"
  by (simp add: committed_def)

lemma committed_Cons [simp]:
  "committed tab (e # es) = (if isCommit tab e then 1 else 0) + committed tab es"
  by (simp add: committed_def)

lemma CommitData_eq:
  "CommitData env t st =
     (case rowLoop env t (tableName (DBTables t)) 0 (call env ConnectDB st) of
        Exit msg st1 \<Rightarrow> Exit msg st1
      | Return u st1 \<Rightarrow> Return () (call env Close st1))"
  by (simp add: CommitData_def tableName_def Let_def)

lemma CommitData_Return:
  assumes "CommitData env t st = Return u st'"
  obtains s1 where "rowLoop env t (tableName (DBTables t)) 0 (call env ConnectDB st) = Return () s1"
    and "st' = call env Close s1"
proof (cases "rowLoop env t (tableName (DBTables t)) 0 (call env ConnectDB st)")
  case (Exit m s)
  with assms show ?thesis by (simp add: CommitData_eq)
next
  case (Return v s1)
  with assms have "st' = call env Close s1" by (simp add: CommitData_eq)
  with Return that show ?thesis by simp
qed

lemma CommitData_full:
  assumes "CommitData env t st = Return u st'" and "skippedTab st' = skippedTab st"
  shows "committed (tableName (DBTables t)) (trace st')
           = committed (tableName (DBTables t)) (trace st) + nat (Rows (cmdOptions env))"
proof (cases "0 \<le> Rows (cmdOptions env)")
  case True
  let ?tab = "tableName (DBTables t)"
  from assms(1) obtain s1 where
    r: "rowLoop env t ?tab 0 (call env ConnectDB st) = Return () s1"
    and c: "st' = call env Close s1"
    by (rule CommitData_Return)
  from c assms(2) have "skippedTab s1 = skippedTab (call env ConnectDB st)"
    by simp
  with r True have "afterRows env t ?tab (nat (Rows (cmdOptions env) - 0)) (call env ConnectDB st) = Some s1"
    by (intro rowLoop_complete) simp_all
  then have "committed ?tab (trace s1)
      = committed ?tab (trace (call env ConnectDB st)) + nat (Rows (cmdOptions env) - 0)"
    by (rule afterRows_committed)
  with c show ?thesis by simp
next
  case False
  let ?tab = "tableName (DBTables t)"
  from assms(1) obtain s1 where
    r: "rowLoop env t ?tab 0 (call env ConnectDB st) = Return () s1"
    and c: "st' = call env Close s1"
    by (rule CommitData_Return)
  from False r have "s1 = call env ConnectDB st"
    by (simp add: rowLoop_done)
  with c False show ?thesis by simp
qed



declare tablesLoop.simps(2) [simp del]

lemma tablesLoop_Cons_Return:
  "CommitData env t (call env (RemoveConstraints (tableName (DBTables t))) st) = Return u s1 \<Longrightarrow>
   tablesLoop env (t # ts) st = tablesLoop env ts s1"
  by (simp add: tablesLoop.simps(2) tableName_def Let_def)

lemma tablesLoop_Cons_Exit:
  "CommitData env t (call env (RemoveConstraints (tableName (DBTables t))) st) = Exit m s1 \<Longrightarrow>
   tablesLoop env (t # ts) st = Exit m s1"
  by (simp add: tablesLoop.simps(2) tableName_def Let_def)

lemma tablesLoop_append:
  "tablesLoop env ts1 st = Return u s1 \<Longrightarrow> tablesLoop env (ts1 @ ts2) st = tablesLoop env ts2 s1"
proof (induction ts1 arbitrary: st)
  case Nil
  then show ?case by simp
next
  case (Cons t ts1)
  show ?case
  proof (cases "CommitData env t (call env (RemoveConstraints (tableName (DBTables t))) st)")
    case (Exit m x)
    with Cons.prems show ?thesis by (simp add: tablesLoop_Cons_Exit)
  next
    case (Return v x)
    from Cons.prems have "tablesLoop env ts1 x = Return u s1"
      by (simp add: tablesLoop_Cons_Return[OF Return])
    then have "tablesLoop env (ts1 @ ts2) x = tablesLoop env ts2 s1"
      by (rule Cons.IH)
    then show ?thesis
      using tablesLoop_Cons_Return[OF Return, of "ts1 @ ts2"] by simp
  qed
qed







lemma demo_table_names:
  "tableName (demoTable ''events'') = tableName (DBTables (demoCollection ''events''))"
  "tableName (demoTable ''users'') = tableName (DBTables (demoCollection ''users''))"
  "tableName (demoTable ''jobs'') = tableName (DBTables (demoCollection ''jobs''))"
  "tableName (demoTable ''logs'') = tableName (DBTables (demoCollection ''logs''))"
  by (simp_all add: demoCollection_def)


subsection \<open>Failures and the encoding of rows\<close>


lemma load_fails:
  assumes tab: "tab = tableName (DBTables t)"
    and prior: "tablesLoop env ts1 (call env BackupDDL st) = Return u s1"
    and start: "s0 = call env ConnectDB (call env (RemoveConstraints tab) s1)"
    and rows: "afterRows env t tab i s0 = Some s"
    and i: "int i < Rows (cmdOptions env)"
    and ex: "rowLoop env t tab (int i) s = Exit m x"
  shows "BackupConstraintsAndStartDataLoading env (ts1 @ t # ts2) st = Exit m x"
proof -
  from i have "0 + int i \<le> Rows (cmdOptions env)" by simp
  with rows have "rowLoop env t tab 0 s0 = rowLoop env t tab (0 + int i) s"
    by (rule rowLoop_afterRows)
  with ex have "rowLoop env t tab 0 s0 = Exit m x" by simp
  then have "CommitData env t (call env (RemoveConstraints (tableName (DBTables t))) s1) = Exit m x"
    by (simp add: CommitData_eq tab start)
  then have "tablesLoop env (t # ts2) s1 = Exit m x"
    by (rule tablesLoop_Cons_Exit)
  with tablesLoop_append[OF prior, of "t # ts2"]
  have "tablesLoop env (ts1 @ t # ts2) (call env BackupDDL st) = Exit m x"
    by simp
  then show ?thesis
    by (simp add: BackupConstraintsAndStartDataLoading_def)
qed

lemma columnExtractor_Nil: "columnExtractor env [] st = Return [] st"
  by (simp add: columnExtractor_def)

lemma MockTable_Exit:
  assumes "columnExtractor env tables (prompted env st0) = Return (c # cs) st"
    and "BackupConstraintsAndStartDataLoading env (c # cs) st = Exit m x"
  shows "MockTable env tables st0 = Exit m x"
proof -
  from assms(1) have ne: "tables \<noteq> []"
    by (auto simp: columnExtractor_Nil)
  from assms have "tableMocker env tables st0 = Exit m x"
    by (simp add: tableMocker_def prompted_def)
  with ne show ?thesis
    by (simp add: MockTable_def)
qed

text \<open>
  Claim C9. The tables \<open>ts1\<close> were loaded, and rows \<open>0\<close> to \<open>i - 1\<close> of the table
  \<open>t\<close> were built and committed; row \<open>i\<close> exists. If the generator then fails on
  column \<open>k\<close> of row \<open>i\<close> with an error that does not start with
  \<^verbatim>\<open>unsupported datatypes found\<close>, the run ends in \<^verbatim>\<open>Fatalf\<close> with a message
  that names the table and the error, in the state of the failed call: no event
  follows the start of the row. If the row was built and its bulk copy returns an
  error, the run ends in \<^verbatim>\<open>Fatalf\<close> with that error, right after the failed copy
  and the three \<^verbatim>\<open>Debugf\<close> lines that name the table, the statement and the data.
  In both cases the tables \<open>ts2\<close> after \<open>t\<close> are not touched, nothing is tried again, and
  the exit is that of the whole run, \<^verbatim>\<open>MockTable\<close>, which restores no constraint.
\<close>

theorem C9_failure_ends_run:
  assumes tab: "tab = tableName (DBTables t)"
    and prior: "tablesLoop env ts1 (call env BackupDDL st) = Return u s1"
    and start: "s0 = call env ConnectDB (call env (RemoveConstraints tab) s1)"
    and rows: "afterRows env t tab i s0 = Some s"
    and i: "int i < Rows (cmdOptions env)"
  shows "(\<forall>k col data sk err w.
            k < length (Columns t)
            \<and> columnLoop env tab (take k (Columns t)) [] [] s = Return (Built col data) sk
            \<and> BuildData env (Datatype (Columns t ! k)) (world sk) = (Inl err, w)
            \<and> \<not> HasPrefix err ''unsupported datatypes found'' \<longrightarrow>
            BackupConstraintsAndStartDataLoading env (ts1 @ t # ts2) st
              = Exit (''Error when building data for table '' @ tab @ '': '' @ err)
                  (sk\<lparr>world := w\<rparr>)
            \<and> trace (sk\<lparr>world := w\<rparr>) = trace s)
       \<and> (\<forall>col data sb e w.
            columnLoop env tab (Columns t) [] [] s = Return (Built col data) sb
            \<and> CopyFromDB env (Join data delimiter) (copyStatement tab col) (world sb)
                = (Some e, w) \<longrightarrow>
            BackupConstraintsAndStartDataLoading env (ts1 @ t # ts2) st
              = Exit (''Error during committing data: '' @ e)
                  (sb\<lparr>world := w,
                      trace := trace s @
                        [CopyFrom tab (copyStatement tab col) (Join data delimiter) (Some e),
                         Log Debug (''Table: '' @ tab),
                         Log Debug (''Copy Statement: '' @ copyStatement tab col),
                         Log Debug (''Data: '' @ Join data delimiter)]\<rparr>))
       \<and> (\<forall>tables st0 m x.
            columnExtractor env tables (prompted env st0) = Return (ts1 @ t # ts2) st
            \<and> BackupConstraintsAndStartDataLoading env (ts1 @ t # ts2) st = Exit m x \<longrightarrow>
            MockTable env tables st0 = Exit m x)"
proof (intro conjI allI impI)
  fix k col data sk err w
  assume h: "k < length (Columns t)
            \<and> columnLoop env tab (take k (Columns t)) [] [] s = Return (Built col data) sk
            \<and> BuildData env (Datatype (Columns t ! k)) (world sk) = (Inl err, w)
            \<and> \<not> HasPrefix err ''unsupported datatypes found''"
  then have k: "k < length (Columns t)"
    and cols: "columnLoop env tab (take k (Columns t)) [] [] s = Return (Built col data) sk"
    and fail: "BuildData env (Datatype (Columns t ! k)) (world sk) = (Inl err, w)"
    and other: "\<not> HasPrefix err ''unsupported datatypes found''"
    by simp_all
  let ?m = "''Error when building data for table '' @ tab @ '': '' @ err"
  have "columnLoop env tab (Columns t) [] [] s = Exit ?m (sk\<lparr>world := w\<rparr>)"
    using columnLoop_fails_at[OF k cols fail] other by simp
  with i have "rowLoop env t tab (int i) s = Exit ?m (sk\<lparr>world := w\<rparr>)"
    by (simp add: rowLoop_Exit_build)
  then show "BackupConstraintsAndStartDataLoading env (ts1 @ t # ts2) st
              = Exit ?m (sk\<lparr>world := w\<rparr>)"
    by (rule load_fails[OF tab prior start rows i])
  from columnLoop_Built[OF cols] show "trace (sk\<lparr>world := w\<rparr>) = trace s"
    by simp
next
  fix col data sb e w
  assume h: "columnLoop env tab (Columns t) [] [] s = Return (Built col data) sb
            \<and> CopyFromDB env (Join data delimiter) (copyStatement tab col) (world sb)
                = (Some e, w)"
  then have b: "columnLoop env tab (Columns t) [] [] s = Return (Built col data) sb"
    and c: "CopyFromDB env (Join data delimiter) (copyStatement tab col) (world sb) = (Some e, w)"
    by simp_all
  let ?x = "sb\<lparr>world := w,
               trace := trace s @
                 [CopyFrom tab (copyStatement tab col) (Join data delimiter) (Some e),
                  Log Debug (''Table: '' @ tab),
                  Log Debug (''Copy Statement: '' @ copyStatement tab col),
                  Log Debug (''Data: '' @ Join data delimiter)]\<rparr>"
  from columnLoop_Built[OF b] have "trace sb = trace s" by simp
  with CopyData_Some[OF c]
  have "CopyData env tab col data sb = Exit (''Error during committing data: '' @ e) ?x"
    by simp
  with i b have "rowLoop env t tab (int i) s = Exit (''Error during committing data: '' @ e) ?x"
    by (simp only: rowLoop_Exit_copy)
  then show "BackupConstraintsAndStartDataLoading env (ts1 @ t # ts2) st
              = Exit (''Error during committing data: '' @ e) ?x"
    by (rule load_fails[OF tab prior start rows i])
next
  fix tables st0 m x
  assume h: "columnExtractor env tables (prompted env st0) = Return (ts1 @ t # ts2) st
            \<and> BackupConstraintsAndStartDataLoading env (ts1 @ t # ts2) st = Exit m x"
  obtain c cs where "ts1 @ t # ts2 = c # cs"
    by (cases "ts1 @ t # ts2") simp_all
  with h show "MockTable env tables st0 = Exit m x"
    using MockTable_Exit[of env tables st0 c cs st m x] by simp
qed


lemma demo_after_users:
  "tablesLoop (demoEnv 2) [demoCollection ''users'']
     (call (demoEnv 2) BackupDDL (initState (0::nat))) = Return () demoAfterUsers"
  by code_simp

lemma demo_classified_logs:
  "columnExtractor (demoEnv 2) [demoTable ''users'', demoTable ''logs'', demoTable ''jobs'']
     (prompted (demoEnv 2) (initState (0::nat)))
   = Return ([demoCollection ''users''] @ demoCollection ''logs'' # [demoCollection ''jobs''])
       (initState 0)"
  by code_simp

lemma demo_classified_jobs:
  "columnExtractor (demoEnv 2) [demoTable ''users'', demoTable ''jobs'', demoTable ''logs'']
     (prompted (demoEnv 2) (initState (0::nat)))
   = Return ([demoCollection ''users''] @ demoCollection ''jobs'' # [demoCollection ''logs''])
       (initState 0)"
  by code_simp

lemma demo_broken_fails:
  "BuildData (demoEnv 2) (Datatype (Columns (demoCollection ''logs'') ! 0))
     (world (demoStart ''logs'')) = (Inl ''generator failed'', 5)"
  by code_simp

lemma demo_poison_built:
  "columnLoop (demoEnv 2) (tableName (demoTable ''jobs'')) (Columns (demoCollection ''jobs''))
     [] [] (demoStart ''jobs'')
   = Return (Built [''state''] [''bad'']) ((demoStart ''jobs'')\<lparr>world := 5\<rparr>)"
  by code_simp

lemma demo_copy_refused:
  "CopyFromDB (demoEnv 2) (Join [''bad''] delimiter)
     (copyStatement (tableName (demoTable ''jobs'')) [''state''])
     (world ((demoStart ''jobs'')\<lparr>world := 5\<rparr>)) = (Some ''copy refused'', 5)"
  by code_simp

lemma demo_lengths:
  "0 < length (Columns (demoCollection ''logs''))"
  "0 < length (Columns (demoCollection ''jobs''))"
  "0 < length (Columns (demoCollection ''events''))"
  by code_simp+

text \<open>
  Witness for C9: after \<^verbatim>\<open>users\<close>, the generator fails on \<^verbatim>\<open>logs\<close> in one run
  and the database refuses the row of \<^verbatim>\<open>jobs\<close> in another.
\<close>

theorem C9_failure_ends_run_witness:
  "tablesLoop (demoEnv 2) [demoCollection ''users'']
     (call (demoEnv 2) BackupDDL (initState (0::nat))) = Return () demoAfterUsers
   \<and> afterRows (demoEnv 2) (demoCollection ''logs'') (tableName (demoTable ''logs'')) 0
       (demoStart ''logs'') = Some (demoStart ''logs'')
   \<and> int 0 < Rows (cmdOptions (demoEnv 2))
   \<and> (0::nat) < length (Columns (demoCollection ''logs''))
   \<and> BuildData (demoEnv 2) (Datatype (Columns (demoCollection ''logs'') ! 0))
       (world (demoStart ''logs'')) = (Inl ''generator failed'', 5)
   \<and> \<not> HasPrefix ''generator failed'' ''unsupported datatypes found''
   \<and> MockTable (demoEnv 2) [demoTable ''users'', demoTable ''logs'', demoTable ''jobs'']
       (initState (0::nat))
       = Exit (''Error when building data for table '' @ tableName (demoTable ''logs'')
                 @ '': generator failed'')
           ((demoStart ''logs'')\<lparr>world := 5\<rparr>)
   \<and> trace ((demoStart ''logs'')\<lparr>world := 5\<rparr>) = trace (demoStart ''logs'')
   \<and> columnLoop (demoEnv 2) (tableName (demoTable ''jobs'')) (Columns (demoCollection ''jobs''))
       [] [] (demoStart ''jobs'')
       = Return (Built [''state''] [''bad'']) ((demoStart ''jobs'')\<lparr>world := 5\<rparr>)
   \<and> CopyFromDB (demoEnv 2) (Join [''bad''] delimiter)
       (copyStatement (tableName (demoTable ''jobs'')) [''state''])
       (world ((demoStart ''jobs'')\<lparr>world := 5\<rparr>)) = (Some ''copy refused'', 5)
   \<and> MockTable (demoEnv 2) [demoTable ''users'', demoTable ''jobs'', demoTable ''logs'']
       (initState (0::nat))
       = Exit ''Error during committing data: copy refused''
           ((demoStart ''jobs'')
              \<lparr>world := 5,
                trace := trace (demoStart ''jobs'') @
                  [CopyFrom (tableName (demoTable ''jobs''))
                     (copyStatement (tableName (demoTable ''jobs'')) [''state''])
                     (Join [''bad''] delimiter) (Some ''copy refused''),
                   Log Debug (''Table: '' @ tableName (demoTable ''jobs'')),
                   Log Debug (''Copy Statement: ''
                     @ copyStatement (tableName (demoTable ''jobs'')) [''state'']),
                   Log Debug (''Data: '' @ Join [''bad''] delimiter)]\<rparr>)"
proof -
  let ?E = "demoEnv 2"
  let ?U = "demoCollection ''users''"
  let ?L = "demoCollection ''logs''"
  let ?J = "demoCollection ''jobs''"
  let ?ltab = "tableName (demoTable ''logs'')"
  let ?jtab = "tableName (demoTable ''jobs'')"
  let ?st = "initState (0::nat)"
  have tl: "?ltab = tableName (DBTables ?L)" by (rule demo_table_names)
  have tj: "?jtab = tableName (DBTables ?J)" by (rule demo_table_names)
  have prior: "tablesLoop ?E [?U] (call ?E BackupDDL ?st) = Return () demoAfterUsers"
    by (rule demo_after_users)
  have startL: "demoStart ''logs'' = call ?E ConnectDB (call ?E (RemoveConstraints ?ltab) demoAfterUsers)"
    by (simp add: demoStart_def)
  have startJ: "demoStart ''jobs'' = call ?E ConnectDB (call ?E (RemoveConstraints ?jtab) demoAfterUsers)"
    by (simp add: demoStart_def)
  have rowsL: "afterRows ?E ?L ?ltab 0 (demoStart ''logs'') = Some (demoStart ''logs'')" by simp
  have rowsJ: "afterRows ?E ?J ?jtab 0 (demoStart ''jobs'') = Some (demoStart ''jobs'')" by simp
  have i: "int 0 < Rows (cmdOptions ?E)" by (simp add: demoEnv_def)
  have other: "\<not> HasPrefix ''generator failed'' ''unsupported datatypes found''"
    by (simp add: HasPrefix_def)
  have takeL: "columnLoop ?E ?ltab (take 0 (Columns ?L)) [] [] (demoStart ''logs'')
                 = Return (Built [] []) (demoStart ''logs'')"
    by simp
  note L = C9_failure_ends_run [OF tl prior startL rowsL i, of "[?J]"]
  have "BackupConstraintsAndStartDataLoading ?E ([?U] @ ?L # [?J]) ?st
              = Exit (''Error when building data for table '' @ ?ltab @ '': '' @ ''generator failed'')
                  ((demoStart ''logs'')\<lparr>world := 5\<rparr>)
            \<and> trace ((demoStart ''logs'')\<lparr>world := 5\<rparr>) = trace (demoStart ''logs'')"
    using L [THEN conjunct1, rule_format,
             of 0 "[]" "[]" "demoStart ''logs''" "''generator failed''" 5]
      demo_lengths(1) takeL demo_broken_fails other
    by blast
  then have bL: "BackupConstraintsAndStartDataLoading ?E ([?U] @ ?L # [?J]) ?st
              = Exit (''Error when building data for table '' @ ?ltab @ '': generator failed'')
                  ((demoStart ''logs'')\<lparr>world := 5\<rparr>)"
    and trL: "trace ((demoStart ''logs'')\<lparr>world := 5\<rparr>) = trace (demoStart ''logs'')"
    by simp_all
  have mL: "MockTable ?E [demoTable ''users'', demoTable ''logs'', demoTable ''jobs''] ?st
              = Exit (''Error when building data for table '' @ ?ltab @ '': generator failed'')
                  ((demoStart ''logs'')\<lparr>world := 5\<rparr>)"
    using L [THEN conjunct2, THEN conjunct2, rule_format,
             of "[demoTable ''users'', demoTable ''logs'', demoTable ''jobs'']" ?st]
      demo_classified_logs bL
    by blast
  note J = C9_failure_ends_run [OF tj prior startJ rowsJ i, of "[?L]"]
  have "BackupConstraintsAndStartDataLoading ?E ([?U] @ ?J # [?L]) ?st
       = Exit (''Error during committing data: '' @ ''copy refused'')
           ((demoStart ''jobs'')
              \<lparr>world := 5, world := 5,
                trace := trace (demoStart ''jobs'') @
                  [CopyFrom ?jtab (copyStatement ?jtab [''state''])
                     (Join [''bad''] delimiter) (Some ''copy refused''),
                   Log Debug (''Table: '' @ ?jtab),
                   Log Debug (''Copy Statement: '' @ copyStatement ?jtab [''state'']),
                   Log Debug (''Data: '' @ Join [''bad''] delimiter)]\<rparr>)"
    using J [THEN conjunct2, THEN conjunct1, rule_format,
             of "[''state'']" "[''bad'']" "(demoStart ''jobs'')\<lparr>world := 5\<rparr>"
                "''copy refused''" 5]
      demo_poison_built demo_copy_refused
    by blast
  then have bJ: "BackupConstraintsAndStartDataLoading ?E ([?U] @ ?J # [?L]) ?st
       = Exit (''Error during committing data: '' @ ''copy refused'')
           ((demoStart ''jobs'')
              \<lparr>world := 5,
                trace := trace (demoStart ''jobs'') @
                  [CopyFrom ?jtab (copyStatement ?jtab [''state''])
                     (Join [''bad''] delimiter) (Some ''copy refused''),
                   Log Debug (''Table: '' @ ?jtab),
                   Log Debug (''Copy Statement: '' @ copyStatement ?jtab [''state'']),
                   Log Debug (''Data: '' @ Join [''bad''] delimiter)]\<rparr>)"
    by simp
  have mJ: "MockTable ?E [demoTable ''users'', demoTable ''jobs'', demoTable ''logs''] ?st
       = Exit (''Error during committing data: '' @ ''copy refused'')
           ((demoStart ''jobs'')
              \<lparr>world := 5,
                trace := trace (demoStart ''jobs'') @
                  [CopyFrom ?jtab (copyStatement ?jtab [''state''])
                     (Join [''bad''] delimiter) (Some ''copy refused''),
                   Log Debug (''Table: '' @ ?jtab),
                   Log Debug (''Copy Statement: '' @ copyStatement ?jtab [''state'']),
                   Log Debug (''Data: '' @ Join [''bad''] delimiter)]\<rparr>)"
    using J [THEN conjunct2, THEN conjunct2, rule_format,
             of "[demoTable ''users'', demoTable ''jobs'', demoTable ''logs'']" ?st]
      demo_classified_jobs bJ
    by blast
  from mJ have mJ': "MockTable ?E [demoTable ''users'', demoTable ''jobs'', demoTable ''logs''] ?st
       = Exit ''Error during committing data: copy refused''
           ((demoStart ''jobs'')
              \<lparr>world := 5,
                trace := trace (demoStart ''jobs'') @
                  [CopyFrom ?jtab (copyStatement ?jtab [''state''])
                     (Join [''bad''] delimiter) (Some ''copy refused''),
                   Log Debug (''Table: '' @ ?jtab),
                   Log Debug (''Copy Statement: '' @ copyStatement ?jtab [''state'']),
                   Log Debug (''Data: '' @ Join [''bad''] delimiter)]\<rparr>)"
    by simp
  from prior rowsL i demo_lengths(1) demo_broken_fails other mL trL
       demo_poison_built demo_copy_refused mJ'
  show ?thesis
    by (intro conjI)
qed


lemma CommitData_trace:
  "\<exists>rows logs closing.
     trace (final (CommitData env t st))
       = trace st @ [ConnectDB] @ map (copyOfRow (tableName (DBTables t)) t) rows
           @ map (Log Debug) logs @ closing
     \<and> (\<forall>r \<in> set rows. list_all2 (generated env) (Columns t) (fst r))
     \<and> int (length rows) \<le> max 0 (Rows (cmdOptions env))
     \<and> set closing \<subseteq> {Close}
     \<and> oneColumnTable (final (CommitData env t st)) = oneColumnTable st"
proof -
  let ?tab = "tableName (DBTables t)"
  let ?rl = "rowLoop env t ?tab 0 (call env ConnectDB st)"
  from rowLoop_trace[of env t ?tab 0 "call env ConnectDB st"] obtain rows logs where
    tr: "trace (final ?rl) = trace (call env ConnectDB st) @ map (copyOfRow ?tab t) rows
           @ map (Log Debug) logs"
    and gen: "\<forall>r \<in> set rows. list_all2 (generated env) (Columns t) (fst r)"
    and len: "int (length rows) \<le> max 0 (Rows (cmdOptions env) - 0)"
    and one: "oneColumnTable (final ?rl) = oneColumnTable (call env ConnectDB st)"
    by blast
  from len have len': "int (length rows) \<le> max 0 (Rows (cmdOptions env))" by simp
  show ?thesis
  proof (cases ?rl)
    case (Exit m x)
    then have "final (CommitData env t st) = x" by (simp add: CommitData_eq)
    with Exit tr one have
      "trace (final (CommitData env t st))
         = trace st @ [ConnectDB] @ map (copyOfRow ?tab t) rows @ map (Log Debug) logs @ []"
      "oneColumnTable (final (CommitData env t st)) = oneColumnTable st"
      by simp_all
    moreover have "set [] \<subseteq> {Close}" by simp
    ultimately show ?thesis using gen len' by blast
  next
    case (Return u x)
    then have "final (CommitData env t st) = call env Close x" by (simp add: CommitData_eq)
    with Return tr one have
      "trace (final (CommitData env t st))
         = trace st @ [ConnectDB] @ map (copyOfRow ?tab t) rows @ map (Log Debug) logs @ [Close]"
      "oneColumnTable (final (CommitData env t st)) = oneColumnTable st"
      by simp_all
    moreover have "set [Close] \<subseteq> {Close}" by simp
    ultimately show ?thesis using gen len' by blast
  qed
qed

lemma filter_copies [simp]:
  "filter isCopyFrom (map (copyOfRow tab t) rows) = map (copyOfRow tab t) rows"
  "filter isCopyFrom (map (Log lvl) logs) = []"
  by (induction rows) (simp_all add: copyOfRow_def filter_empty_conv)







lemma committed_copies:
  "committed tab (map (copyOfRow tab t) rows) = length (filter (\<lambda>r. snd r = None) rows)"
proof (induction rows)
  case Nil
  show ?case by simp
next
  case (Cons r rows)
  then show ?case
    by (cases "snd r") (simp_all add: copyOfRow_def)
qed

lemma committed_logs [simp]: "committed tab (map (Log lvl) logs) = 0"
  by (induction logs) simp_all

lemma committed_closing: "set closing \<subseteq> {Close} \<Longrightarrow> committed tab closing = 0"
  by (induction closing) simp_all

lemma filter_all:
  assumes "length (filter P xs) = length xs"
  shows "\<forall>x \<in> set xs. P x"
proof (rule ccontr)
  assume "\<not> (\<forall>x \<in> set xs. P x)"
  then obtain x where "x \<in> set xs" "\<not> P x" by blast
  then have "length (filter P xs) < length xs" by (rule length_filter_less)
  with assms show False by simp
qed

text \<open>
  Claim C6, as amended. The delimiter is the one character \<^verbatim>\<open>$\<close>. The values of a
  row are joined by it into the payload of one bulk copy, and every row is submitted
  by a bulk copy of its own: the copies of a load carry one row each, there are at
  most \<^verbatim>\<open>cmdOptions.Rows\<close> of them, and exactly that many, all without error, when
  the load returns without a skip. Rows are never joined into one payload.
\<close>

theorem C6_one_copy_per_row:
  "delimiter = ''$''
   \<and> (\<exists>rows logs closing.
        trace (final (CommitData env t st))
          = trace st @ [ConnectDB]
              @ map (\<lambda>r. CopyFrom (tableName (DBTables t))
                            (copyStatement (tableName (DBTables t)) (map Column (Columns t)))
                            (Join (fst r) ''$'') (snd r)) rows
              @ map (Log Debug) logs @ closing
        \<and> (\<forall>r \<in> set rows. length (fst r) = length (Columns t))
        \<and> set closing \<subseteq> {Close}
        \<and> int (length rows) \<le> max 0 (Rows (cmdOptions env))
        \<and> (\<forall>u st'. CommitData env t st = Return u st' \<and> skippedTab st' = skippedTab st \<longrightarrow>
              int (length rows) = max 0 (Rows (cmdOptions env))
              \<and> (\<forall>r \<in> set rows. snd r = None)))"
proof -
  let ?tab = "tableName (DBTables t)"
  from CommitData_trace[of env t st] obtain rows logs closing where
    tr: "trace (final (CommitData env t st))
        = trace st @ [ConnectDB] @ map (copyOfRow ?tab t) rows @ map (Log Debug) logs @ closing"
    and gen: "\<forall>r \<in> set rows. list_all2 (generated env) (Columns t) (fst r)"
    and len: "int (length rows) \<le> max 0 (Rows (cmdOptions env))"
    and cl: "set closing \<subseteq> {Close}"
    by blast
  have m: "map (copyOfRow ?tab t) rows
      = map (\<lambda>r. CopyFrom ?tab (copyStatement ?tab (map Column (Columns t)))
                    (Join (fst r) ''$'') (snd r)) rows"
    by (simp add: copyOfRow_def delimiter_def)
  from gen have l: "\<forall>r \<in> set rows. length (fst r) = length (Columns t)"
    by (auto dest: list_all2_lengthD[symmetric])
  have full: "\<forall>u st'. CommitData env t st = Return u st' \<and> skippedTab st' = skippedTab st \<longrightarrow>
              int (length rows) = max 0 (Rows (cmdOptions env))
              \<and> (\<forall>r \<in> set rows. snd r = None)"
  proof (intro allI impI, elim conjE)
    fix u st'
    assume r: "CommitData env t st = Return u st'" and sk: "skippedTab st' = skippedTab st"
    from CommitData_full[OF r sk] r tr
    have "committed ?tab (trace st) + committed ?tab (map (copyOfRow ?tab t) rows)
            + committed ?tab closing
          = committed ?tab (trace st) + nat (Rows (cmdOptions env))"
      by simp
    with committed_closing[OF cl]
    have c: "length (filter (\<lambda>r. snd r = None) rows) = nat (Rows (cmdOptions env))"
      by (simp add: committed_copies)
    have "length (filter (\<lambda>r. snd r = None) rows) \<le> length rows"
      by (rule length_filter_le)
    with c len have e: "length (filter (\<lambda>r. snd r = None) rows) = length rows"
      by simp
    then have "\<forall>r \<in> set rows. snd r = None"
      by (rule filter_all)
    moreover from c e have "int (length rows) = max 0 (Rows (cmdOptions env))"
      by simp
    ultimately show "int (length rows) = max 0 (Rows (cmdOptions env))
              \<and> (\<forall>r \<in> set rows. snd r = None)"
      by simp
  qed
  from tr have tr': "trace (final (CommitData env t st))
          = trace st @ [ConnectDB]
              @ map (\<lambda>r. CopyFrom ?tab (copyStatement ?tab (map Column (Columns t)))
                            (Join (fst r) ''$'') (snd r)) rows
              @ map (Log Debug) logs @ closing"
    unfolding m .
  have "delimiter = ''$''" by (simp add: delimiter_def)
  with tr' l cl len full show ?thesis
    by blast
qed

text \<open>
  Counterexample to C6 as stated: two rows for \<^verbatim>\<open>users\<close> are two bulk copies with
  the payload \<^verbatim>\<open>abc$42\<close> each, not one copy with both rows.
\<close>

theorem C6_one_copy_per_row_counterexample:
  "trace (final (CommitData (demoEnv 2) (demoCollection ''users'') (initState (0::nat))))
     = [ConnectDB,
        CopyFrom (tableName (demoTable ''users''))
          (copyStatement (tableName (demoTable ''users'')) [''name'', ''age''])
          ''abc$42'' None,
        CopyFrom (tableName (demoTable ''users''))
          (copyStatement (tableName (demoTable ''users'')) [''name'', ''age''])
          ''abc$42'' None,
        Close]
   \<and> length (filter isCopyFrom
        (trace (final (CommitData (demoEnv 2) (demoCollection ''users'') (initState (0::nat))))))
       = 2"
  by code_simp


lemma filter_closing: "set closing \<subseteq> {Close} \<Longrightarrow> filter isCopyFrom closing = []"
  by (induction closing) simp_all

lemma demo_users_two_rows:
  "CommitData (demoEnv 2) (demoCollection ''users'') (initState (0::nat))
     = Return () (final (CommitData (demoEnv 2) (demoCollection ''users'') (initState (0::nat))))"
  "skippedTab (final (CommitData (demoEnv 2) (demoCollection ''users'') (initState (0::nat))))
     = skippedTab (initState (0::nat))"
  by code_simp+

text \<open>Witness for C6 as amended: the two copies of the two rows of \<^verbatim>\<open>users\<close>.\<close>

theorem C6_one_copy_per_row_witness:
  "CommitData (demoEnv 2) (demoCollection ''users'') (initState (0::nat))
     = Return () (final (CommitData (demoEnv 2) (demoCollection ''users'') (initState (0::nat))))
   \<and> skippedTab (final (CommitData (demoEnv 2) (demoCollection ''users'') (initState (0::nat))))
       = skippedTab (initState (0::nat))
   \<and> length (filter isCopyFrom
        (trace (final (CommitData (demoEnv 2) (demoCollection ''users'') (initState (0::nat))))))
       = 2"
proof -
  let ?E = "demoEnv 2"
  let ?U = "demoCollection ''users''"
  let ?st = "initState (0::nat)"
  let ?tab = "tableName (DBTables ?U)"
  from C6_one_copy_per_row [of ?E ?U ?st] obtain rows logs closing where
    tr: "trace (final (CommitData ?E ?U ?st))
          = trace ?st @ [ConnectDB]
              @ map (\<lambda>r. CopyFrom ?tab (copyStatement ?tab (map Column (Columns ?U)))
                            (Join (fst r) ''$'') (snd r)) rows
              @ map (Log Debug) logs @ closing"
    and cl: "set closing \<subseteq> {Close}"
    and full: "\<forall>u st'. CommitData ?E ?U ?st = Return u st' \<and> skippedTab st' = skippedTab ?st \<longrightarrow>
              int (length rows) = max 0 (Rows (cmdOptions ?E))
              \<and> (\<forall>r \<in> set rows. snd r = None)"
    by blast
  from full demo_users_two_rows have "int (length rows) = max 0 (Rows (cmdOptions ?E))"
    by blast
  then have n: "length rows = 2"
    by (simp add: demoEnv_def)
  have "filter isCopyFrom (trace (final (CommitData ?E ?U ?st)))
          = map (\<lambda>r. CopyFrom ?tab (copyStatement ?tab (map Column (Columns ?U)))
                            (Join (fst r) ''$'') (snd r)) rows"
    unfolding tr using filter_closing[OF cl]
    by (simp add: initState_def filter_map comp_def)
  with n have "length (filter isCopyFrom (trace (final (CommitData ?E ?U ?st)))) = 2"
    by simp
  with demo_users_two_rows show ?thesis
    by (intro conjI)
qed

subsection \<open>The order of the run\<close>



























end
